theory Spec2Isabelle
  imports Main
begin

section \<open>Arrays, descriptors and memory\<close>

text \<open>
  The embedding follows \<^verbatim>\<open>numpy/core/src/multiarray/reduction.c\<close>. An array object is
  its header: data origin, dimensions, strides, element descriptor and the optional NA mask
  (mask origin, mask strides, mask descriptor). \<^verbatim>\<open>npy_intp\<close> is modelled by \<open>int\<close>.
  Element storage and mask storage are two address spaces; an element is stored at the
  address of its first byte.
\<close>

datatype NPY_TYPES = NPY_BOOL | NPY_INTP | NPY_MASK | NPY_DOUBLE

record PyArray_Descr =
  type_num :: NPY_TYPES
  elsize :: int
  hasfields :: bool

record maskna_fields =
  maskna_dtype :: PyArray_Descr
  maskna_data :: int
  maskna_strides :: "int list"

record PyArrayObject =
  data :: int
  dimensions :: "int list"
  strides :: "int list"
  descr :: PyArray_Descr
  maskna :: "maskna_fields option"

record memory =
  dmem :: "int \<Rightarrow> int"
  mmem :: "int \<Rightarrow> int"
  dbrk :: int
  mbrk :: int

datatype error =
    WhereMaskError
  | MultiNAError
  | MaskSupportError
  | ShapeError
  | NonReorderableError
  | EmptyReductionError
  | AllMissingError
  | MissingLoopError
  | UnimplementedError
  | BroadcastError
  | IteratorError
  | CallbackError

definition PyArray_NDIM :: "PyArrayObject \<Rightarrow> nat" where
  "PyArray_NDIM arr = length (dimensions arr)"

definition PyArray_SIZE :: "PyArrayObject \<Rightarrow> int" where
  "PyArray_SIZE arr = prod_list (dimensions arr)"

definition PyArray_HASMASKNA :: "PyArrayObject \<Rightarrow> bool" where
  "PyArray_HASMASKNA arr = (maskna arr \<noteq> None)"

definition PyArray_HASFIELDS :: "PyArrayObject \<Rightarrow> bool" where
  "PyArray_HASFIELDS arr = hasfields (descr arr)"

definition NpyMaskValue_IsExposed :: "int \<Rightarrow> bool" where
  \<comment> \<open>Modelled from the spec: the macro of \<^verbatim>\<open>na_mask.h\<close>, which tests the lowest bit of
     the mask byte (exposed = contributes, hidden = treated as absent).\<close>
  "NpyMaskValue_IsExposed m = (m mod 2 = 1)"

section \<open>ShapeBuilder: \<^verbatim>\<open>allocate_reduce_result\<close>\<close>

definition PyArray_CreateSortedStridePerm :: "nat \<Rightarrow> int list \<Rightarrow> int list \<Rightarrow> nat list" where
  \<comment> \<open>Modelled from the spec: the stride sort is not part of this file; the axes are sorted
     by the operand's stride magnitude, largest first, so that the last entry is the
     innermost axis.\<close>
  "PyArray_CreateSortedStridePerm ndim shape strd =
     sort_key (\<lambda>i. - \<bar>strd ! i\<bar>) [0..<ndim]"

fun build_strides ::
  "nat list \<Rightarrow> bool list \<Rightarrow> int list \<times> int list \<times> int \<Rightarrow> int list \<times> int list \<times> int" where
  "build_strides [] axis_flags acc = acc"
| "build_strides (i_perm # rest) axis_flags (strd, shape, stride) =
     (if axis_flags ! i_perm
      then build_strides rest axis_flags (strd[i_perm := 0], shape[i_perm := 1], stride)
      else build_strides rest axis_flags
             (strd[i_perm := stride], shape, stride * shape ! i_perm))"

definition PyArray_NewFromDescr ::
  "PyArray_Descr \<Rightarrow> int list \<Rightarrow> int list \<Rightarrow> memory \<Rightarrow> PyArrayObject \<times> memory" where
  \<comment> \<open>Modelled from the spec: array creation with given shape and strides and no data
     pointer takes a fresh block of element storage; no mask is attached.\<close>
  "PyArray_NewFromDescr dtype shape strd s =
     (\<lparr>data = dbrk s, dimensions = shape, strides = strd, descr = dtype, maskna = None\<rparr>,
      s\<lparr>dbrk := dbrk s + max (elsize dtype) (elsize dtype * prod_list shape)\<rparr>)"

definition allocate_reduce_result ::
  "PyArrayObject \<Rightarrow> bool list \<Rightarrow> PyArray_Descr option \<Rightarrow> bool \<Rightarrow> memory
     \<Rightarrow> PyArrayObject \<times> memory" where
  "allocate_reduce_result arr axis_flags dtype subok s =
     (let ndim = PyArray_NDIM arr;
          dtype = (case dtype of None \<Rightarrow> descr arr | Some d \<Rightarrow> d);
          strideperm = PyArray_CreateSortedStridePerm ndim (dimensions arr) (strides arr);
          (strd, shape, stride) =
             build_strides (rev strideperm) axis_flags
               (replicate ndim 0, dimensions arr, elsize dtype)
      in PyArray_NewFromDescr dtype shape strd s)"


definition axis_extent :: "bool list \<Rightarrow> int list \<Rightarrow> nat \<Rightarrow> int" where
  \<comment> \<open>The size an axis has in the reduction result: 1 when flagged, the operand's otherwise.\<close>
  "axis_extent axis_flags shape p = (if axis_flags ! p then 1 else shape ! p)"

section \<open>Index spaces, addresses and the external collaborators\<close>

fun index_space :: "int list \<Rightarrow> int list list" where
  \<comment> \<open>All coordinates of a shape, in row-major order.\<close>
  "index_space [] = [[]]"
| "index_space (d # shape) =
     concat (map (\<lambda>i. map ((#) i) (index_space shape)) (map int [0..<nat d]))"

definition byte_offset :: "int list \<Rightarrow> int list \<Rightarrow> int" where
  "byte_offset strd idx = sum_list (map2 (*) idx strd)"

definition element_address :: "PyArrayObject \<Rightarrow> int list \<Rightarrow> int" where
  "element_address arr idx = data arr + byte_offset (strides arr) idx"

definition mask_address :: "maskna_fields \<Rightarrow> int list \<Rightarrow> int" where
  "mask_address m idx = maskna_data m + byte_offset (maskna_strides m) idx"

fun contiguous_strides :: "int \<Rightarrow> int list \<Rightarrow> int list" where
  "contiguous_strides itemsize [] = []"
| "contiguous_strides itemsize (d # shape) =
     (itemsize * prod_list shape) # contiguous_strides itemsize shape"

definition store_all :: "(int \<times> int) list \<Rightarrow> (int \<Rightarrow> int) \<Rightarrow> (int \<Rightarrow> int)" where
  \<comment> \<open>Writes the values to the addresses, one after the other.\<close>
  "store_all avs m = fold (\<lambda>(a, v) m. m(a := v)) avs m"

definition bool_descr :: PyArray_Descr where
  "bool_descr = \<lparr>type_num = NPY_BOOL, elsize = 1, hasfields = False\<rparr>"

definition intp_descr :: PyArray_Descr where
  "intp_descr = \<lparr>type_num = NPY_INTP, elsize = 8, hasfields = False\<rparr>"

definition PyArray_View :: "PyArrayObject \<Rightarrow> PyArrayObject" where
  \<comment> \<open>Modelled from the spec: a view is a new header over the same data and mask; changing
     the view's shape or origin leaves the array it was taken from as it was.\<close>
  "PyArray_View arr = arr"

definition PyArray_AllocateMaskNA :: "PyArrayObject \<Rightarrow> memory \<Rightarrow> PyArrayObject \<times> memory" where
  \<comment> \<open>Modelled from the spec: called with \<^verbatim>\<open>ownmaskna = 1, multina = 0, defaultmask = 1\<close>.
     The array gets a mask of its own in fresh mask storage: a copy of the mask it had, or
     an all-exposed mask when it had none.\<close>
  "PyArray_AllocateMaskNA arr s =
     (let shape = dimensions arr;
          mstrd = contiguous_strides 1 shape;
          idxs = index_space shape;
          vals = map (\<lambda>idx. case maskna arr of None \<Rightarrow> 1
                              | Some m \<Rightarrow> mmem s (mask_address m idx)) idxs;
          addrs = map (\<lambda>idx. mbrk s + byte_offset mstrd idx) idxs
      in (arr\<lparr>maskna := Some \<lparr>maskna_dtype = bool_descr, maskna_data = mbrk s,
                                maskna_strides = mstrd\<rparr>\<rparr>,
          s\<lparr>mmem := store_all (zip addrs vals) (mmem s),
            mbrk := mbrk s + max 1 (prod_list shape)\<rparr>))"

definition PyArray_AssignZero :: "PyArrayObject \<Rightarrow> memory \<Rightarrow> memory" where
  \<comment> \<open>Modelled from the spec: zero-fill of every element, called without where-mask and
     with \<^verbatim>\<open>preservena = 0\<close>.\<close>
  "PyArray_AssignZero arr s =
     s\<lparr>dmem := store_all (map (\<lambda>idx. (element_address arr idx, 0))
                             (index_space (dimensions arr))) (dmem s)\<rparr>"

definition PyArray_AssignMaskNA :: "PyArrayObject \<Rightarrow> int \<Rightarrow> memory \<Rightarrow> memory" where
  \<comment> \<open>Modelled from the spec: sets every mask byte of the array to the given value.\<close>
  "PyArray_AssignMaskNA arr v s =
     (case maskna arr of
        None \<Rightarrow> s
      | Some m \<Rightarrow> s\<lparr>mmem := store_all (map (\<lambda>idx. (mask_address m idx, v))
                                          (index_space (dimensions arr))) (mmem s)\<rparr>)"

definition PyArray_ContainsNA :: "PyArrayObject \<Rightarrow> memory \<Rightarrow> bool" where
  \<comment> \<open>Modelled from the spec: whether the operand contains a hidden element.\<close>
  "PyArray_ContainsNA arr s =
     (case maskna arr of
        None \<Rightarrow> False
      | Some m \<Rightarrow> list_ex (\<lambda>idx. \<not> NpyMaskValue_IsExposed (mmem s (mask_address m idx)))
                    (index_space (dimensions arr)))"

definition broadcast_strides :: "int list \<Rightarrow> int list \<Rightarrow> int list" where
  \<comment> \<open>An axis of size 1 is repeated along the iteration: its stride counts as 0.\<close>
  "broadcast_strides shape strd = map2 (\<lambda>d st. if d = 1 then 0 else st) shape strd"

definition broadcast_shape :: "int list \<Rightarrow> int list \<Rightarrow> int list option" where
  "broadcast_shape a b =
     (if length a = length b \<and> list_all2 (\<lambda>x y. x = y \<or> x = 1 \<or> y = 1) a b
      then Some (map2 (\<lambda>x y. if x = 1 then y else x) a b) else None)"

definition PyArray_AssignArray ::
  "PyArrayObject \<Rightarrow> PyArrayObject \<Rightarrow> bool \<Rightarrow> memory \<Rightarrow> error + memory" where
  \<comment> \<open>Modelled from the spec: the element copy routine. The source is repeated along its
     axes of size 1 to fill the destination; its values are read before any is written;
     the destination's validity bits are not overwritten.\<close>
  "PyArray_AssignArray dst src preservena s =
     (if broadcast_shape (dimensions src) (dimensions dst) = Some (dimensions dst)
      then let idxs = index_space (dimensions dst);
               sstrd = broadcast_strides (dimensions src) (strides src);
               vals = map (\<lambda>idx. dmem s (data src + byte_offset sstrd idx)) idxs;
               addrs = map (element_address dst) idxs
           in Inr (s\<lparr>dmem := store_all (zip addrs vals) (dmem s)\<rparr>)
      else Inl BroadcastError)"

definition remove_flagged :: "bool list \<Rightarrow> 'a list \<Rightarrow> 'a list" where
  "remove_flagged axis_flags xs = map snd (filter (\<lambda>(f, x). \<not> f) (zip axis_flags xs))"

definition PyArray_RemoveAxesInPlace :: "PyArrayObject \<Rightarrow> bool list \<Rightarrow> PyArrayObject" where
  \<comment> \<open>Modelled from the spec: the flagged axes are physically removed from the shape, the
     strides and the mask strides.\<close>
  "PyArray_RemoveAxesInPlace arr axis_flags =
     arr\<lparr>dimensions := remove_flagged axis_flags (dimensions arr),
         strides := remove_flagged axis_flags (strides arr),
         maskna := map_option
           (\<lambda>m. m\<lparr>maskna_strides := remove_flagged axis_flags (maskna_strides m)\<rparr>)
           (maskna arr)\<rparr>"

definition PyArray_ReduceMaskNAArray ::
  "PyArrayObject \<Rightarrow> PyArrayObject \<Rightarrow> memory \<Rightarrow> error + memory" where
  \<comment> \<open>Modelled from the spec: the MaskReducer collaborator, which reduces the operand's
     validity mask into the result's mask ("exposed iff any contributing element exposed").\<close>
  "PyArray_ReduceMaskNAArray operand result s =
     (case (maskna operand, maskna result) of
        (Some mo, Some mr) \<Rightarrow>
          (if broadcast_shape (dimensions result) (dimensions operand) = Some (dimensions operand)
           then let oidxs = index_space (dimensions operand);
                    rstrd = broadcast_strides (dimensions result) (maskna_strides mr);
                    cell = (\<lambda>ridx. maskna_data mr + byte_offset rstrd ridx);
                    vals = map (\<lambda>ridx. if list_ex (\<lambda>idx. cell idx = cell ridx \<and>
                                   NpyMaskValue_IsExposed (mmem s (mask_address mo idx))) oidxs
                                 then 1 else 0) oidxs
                in Inr (s\<lparr>mmem := store_all (zip (map cell oidxs) vals) (mmem s)\<rparr>)
           else Inl BroadcastError)
      | _ \<Rightarrow> Inl MaskSupportError)"


section \<open>OutputConformer and ResultFactory\<close>

fun conform_axes ::
  "bool list \<Rightarrow> (int \<times> int) list \<Rightarrow> error + ((int \<times> int) list \<times> (int \<times> int) list)" where
  \<comment> \<open>The loop that builds strides and shape: a flagged axis gets stride 0 and size 1, any
     other axis takes the next (stride, size) of the output. Returns the pairs built and
     the output's pairs left over.\<close>
  "conform_axes [] outs = Inr ([], outs)"
| "conform_axes (flag # axis_flags) outs =
     (if flag
      then (case conform_axes axis_flags outs of
              Inl e \<Rightarrow> Inl e
            | Inr (built, rest) \<Rightarrow> Inr ((0, 1) # built, rest))
      else (case outs of
              [] \<Rightarrow> Inl ShapeError
            | so # outs' \<Rightarrow>
                (case conform_axes axis_flags outs' of
                   Inl e \<Rightarrow> Inl e
                 | Inr (built, rest) \<Rightarrow> Inr (so # built, rest))))"

fun conform_mask_strides :: "bool list \<Rightarrow> int list \<Rightarrow> int list" where
  "conform_mask_strides [] strides_out = []"
| "conform_mask_strides (flag # axis_flags) strides_out =
     (if flag then 0 # conform_mask_strides axis_flags strides_out
      else (case strides_out of
              [] \<Rightarrow> []
            | st # rest \<Rightarrow> st # conform_mask_strides axis_flags rest))"

definition conform_reduce_result ::
  "nat \<Rightarrow> bool list \<Rightarrow> PyArrayObject \<Rightarrow> bool \<Rightarrow> error + PyArrayObject" where
  "conform_reduce_result ndim axis_flags out keepdims =
     (if keepdims then
        (if PyArray_NDIM out \<noteq> ndim then Inl ShapeError
         else if list_ex (\<lambda>idim. axis_flags ! idim \<and> dimensions out ! idim \<noteq> 1) [0..<ndim]
         then Inl ShapeError
         else Inr out)
      else
        (case conform_axes (take ndim axis_flags) (zip (strides out) (dimensions out)) of
           Inl e \<Rightarrow> Inl e
         | Inr (built, rest) \<Rightarrow>
             (if rest \<noteq> [] then Inl ShapeError
              else Inr \<lparr>data = data out, dimensions = map snd built, strides = map fst built,
                        descr = descr out,
                        maskna = map_option
                          (\<lambda>m. m\<lparr>maskna_strides :=
                                 conform_mask_strides (take ndim axis_flags) (maskna_strides m)\<rparr>)
                          (maskna out)\<rparr>)))"

definition PyArray_CreateReduceResult ::
  "PyArrayObject \<Rightarrow> PyArrayObject option \<Rightarrow> PyArray_Descr option \<Rightarrow> bool list \<Rightarrow> bool \<Rightarrow> bool
     \<Rightarrow> bool \<Rightarrow> memory \<Rightarrow> error + (PyArrayObject \<times> memory)" where
  "PyArray_CreateReduceResult operand out dtype axis_flags need_namask keepdims subok s =
     (case out of
        None \<Rightarrow>
          (let (result, s1) = allocate_reduce_result operand axis_flags dtype subok s
           in if need_namask then Inr (PyArray_AllocateMaskNA result s1) else Inr (result, s1))
      | Some out' \<Rightarrow>
          (if need_namask \<and> \<not> PyArray_HASMASKNA out' then Inl MaskSupportError
           else (case conform_reduce_result (PyArray_NDIM operand) axis_flags out' keepdims of
                   Inl e \<Rightarrow> Inl e
                 | Inr result \<Rightarrow> Inr (result, s))))"

section \<open>The check for non-reorderable reductions\<close>

fun check_axes :: "bool list \<Rightarrow> bool \<Rightarrow> error + unit" where
  \<comment> \<open>The loop of \<^verbatim>\<open>check_nonreorderable_axes\<close>; the second argument is \<^verbatim>\<open>single_axis\<close>.\<close>
  "check_axes [] single_axis = Inr ()"
| "check_axes (flag # axis_flags) single_axis =
     (if flag then (if single_axis then Inl NonReorderableError else check_axes axis_flags True)
      else check_axes axis_flags single_axis)"

definition check_nonreorderable_axes :: "nat \<Rightarrow> bool list \<Rightarrow> error + unit" where
  "check_nonreorderable_axes ndim axis_flags = check_axes (take ndim axis_flags) False"


section \<open>ScatteredSeeder: \<^verbatim>\<open>initialize_reduce_result_noidentity_skipna\<close>\<close>

text \<open>
  The flag array \<^verbatim>\<open>initialized\<close> is private to the function, of boolean type, zero-filled
  and only ever written with 1. It is modelled as a store of booleans of its own, addressed
  through the iterator's pointer for it: \<^verbatim>\<open>*init_d == 1\<close> reads the flag, \<^verbatim>\<open>*init_d == 0\<close>
  its negation.
\<close>

record seed_chunk =
  op_d :: int
  res_d :: int
  init_d :: int
  op_namask_d :: int
  op_s :: int
  res_s :: int
  init_s :: int
  op_namask_s :: int
  count :: nat

fun stransfer :: "int \<Rightarrow> int \<Rightarrow> int \<Rightarrow> int \<Rightarrow> nat \<Rightarrow> (int \<Rightarrow> int) \<Rightarrow> (int \<Rightarrow> int)" where
  \<comment> \<open>Modelled from the spec: the DataTransfer collaborator; given destination and source
     with their strides and an element count, one strided element copy.\<close>
  "stransfer dst dst_stride src src_stride 0 m = m"
| "stransfer dst dst_stride src src_stride (Suc n) m =
     stransfer (dst + dst_stride) dst_stride (src + src_stride) src_stride n (m(dst := m src))"

definition NpyIter_MultiNew ::
  "PyArrayObject \<Rightarrow> PyArrayObject \<Rightarrow> PyArrayObject \<Rightarrow> error + (int \<times> seed_chunk list)" where
  \<comment> \<open>Modelled from the spec: the Iterator collaborator over (operand with its mask, result,
     flags), with an external inner loop. It yields one chunk per coordinate of the outer
     axes, in row-major order, the last axis being the inner loop; an operand's axis of
     size 1 has stride 0. Returns the iteration size and the chunks.\<close>
  "NpyIter_MultiNew operand result initialized =
     (case maskna operand of
        None \<Rightarrow> Inl IteratorError
      | Some m \<Rightarrow>
          (if broadcast_shape (dimensions result) (dimensions operand) = Some (dimensions operand)
              \<and> dimensions initialized = dimensions result
           then let shape = dimensions operand;
                    ostr = broadcast_strides shape (strides operand);
                    rstr = broadcast_strides (dimensions result) (strides result);
                    istr = broadcast_strides (dimensions initialized) (strides initialized);
                    mstr = broadcast_strides shape (maskna_strides m);
                    inner = (\<lambda>strd. if strd = [] then 0 else last strd)
                in Inr (prod_list shape,
                     map (\<lambda>idx. \<lparr>op_d = data operand + byte_offset (butlast ostr) idx,
                                  res_d = data result + byte_offset (butlast rstr) idx,
                                  init_d = data initialized + byte_offset (butlast istr) idx,
                                  op_namask_d = maskna_data m + byte_offset (butlast mstr) idx,
                                  op_s = inner ostr, res_s = inner rstr, init_s = inner istr,
                                  op_namask_s = inner mstr,
                                  count = (if shape = [] then 1 else nat (last shape))\<rparr>)
                       (index_space (butlast shape)))
           else Inl BroadcastError))"

fun seed_first ::
  "seed_chunk \<Rightarrow> nat \<Rightarrow> int \<Rightarrow> int \<Rightarrow> int \<Rightarrow> memory \<times> (int \<Rightarrow> bool) \<times> int
     \<Rightarrow> bool \<times> memory \<times> (int \<Rightarrow> bool) \<times> int" where
  \<comment> \<open>The branch \<^verbatim>\<open>res_s == 0\<close>: copy at most one value. The arguments are the chunk, the
     iterations left, \<^verbatim>\<open>i\<close>, \<^verbatim>\<open>init_d\<close> and \<^verbatim>\<open>op_namask_d\<close>; the state is the memory,
     the flags and \<^verbatim>\<open>initialized_countdown\<close>. The first component of the result tells
     whether the loop left through \<^verbatim>\<open>finish_loop\<close>.\<close>
  "seed_first c 0 i initd maskd (s, flags, countdown) = (False, s, flags, countdown)"
| "seed_first c (Suc n) i initd maskd (s, flags, countdown) =
     (if \<not> flags initd \<and> NpyMaskValue_IsExposed (mmem s maskd)
      then (countdown - 1 = 0,
            s\<lparr>dmem := stransfer (res_d c) 0 (op_d c + i * op_s c) (op_s c) 1 (dmem s)\<rparr>,
            flags(initd := True), countdown - 1)
      else seed_first c n (i + 1) (initd + init_s c) (maskd + op_namask_s c)
             (s, flags, countdown))"

fun skip_run :: "nat \<Rightarrow> int \<Rightarrow> int \<Rightarrow> int \<Rightarrow> int \<Rightarrow> memory \<Rightarrow> (int \<Rightarrow> bool) \<Rightarrow> nat" where
  \<comment> \<open>Skip values that are initialized or masked: the number skipped.\<close>
  "skip_run 0 initd maskd inits masks s flags = 0"
| "skip_run (Suc n) initd maskd inits masks s flags =
     (if flags initd \<or> \<not> NpyMaskValue_IsExposed (mmem s maskd)
      then Suc (skip_run n (initd + inits) (maskd + masks) inits masks s flags)
      else 0)"

fun mark_run ::
  "nat \<Rightarrow> int \<Rightarrow> int \<Rightarrow> int \<Rightarrow> int \<Rightarrow> memory \<Rightarrow> (int \<Rightarrow> bool) \<Rightarrow> nat \<times> (int \<Rightarrow> bool)" where
  \<comment> \<open>Count the values that are uninitialized and exposed, marking each as initialized.\<close>
  "mark_run 0 initd maskd inits masks s flags = (0, flags)"
| "mark_run (Suc n) initd maskd inits masks s flags =
     (if \<not> flags initd \<and> NpyMaskValue_IsExposed (mmem s maskd)
      then (let (k, flags') = mark_run n (initd + inits) (maskd + masks) inits masks s
                                (flags(initd := True))
            in (Suc k, flags'))
      else (0, flags))"


lemma skip_run_le: "skip_run n initd maskd inits masks s flags \<le> n"
  by (induction n arbitrary: initd maskd) auto

lemma mark_run_le: "fst (mark_run n initd maskd inits masks s flags) \<le> n"
proof (induction n arbitrary: initd maskd flags)
  case 0
  show ?case by simp
next
  case (Suc n)
  obtain k fl where m: "mark_run n (initd + inits) (maskd + masks) inits masks s
      (flags(initd := True)) = (k, fl)"
    by (cases "mark_run n (initd + inits) (maskd + masks) inits masks s (flags(initd := True))")
  from Suc[of "initd + inits" "maskd + masks" "flags(initd := True)"] have "k \<le> n"
    unfolding m by simp
  then show ?case
    unfolding mark_run.simps m by simp
qed

lemma run_progress:
  "0 < n \<Longrightarrow> skip_run n initd maskd inits masks s flags = 0 \<Longrightarrow>
   0 < fst (mark_run n initd maskd inits masks s flags)"
  by (cases n) (auto split: prod.splits if_splits)

text \<open>
  The branch for a non-zero result stride processes the data in runs as large as possible.
  One pass of its \<^verbatim>\<open>do ... while (count > 0)\<close> loop is \<open>seed_run_step\<close>; the state holds
  \<^verbatim>\<open>count\<close>, the four pointers, the memory, the flags and \<^verbatim>\<open>initialized_countdown\<close>.
\<close>

record run_state =
  rs_count :: nat
  rs_op_d :: int
  rs_res_d :: int
  rs_init_d :: int
  rs_op_namask_d :: int
  rs_mem :: memory
  rs_flags :: "int \<Rightarrow> bool"
  rs_countdown :: int

definition seed_run_step :: "seed_chunk \<Rightarrow> run_state \<Rightarrow> run_state" where
  "seed_run_step c r =
     (let k1 = skip_run (rs_count r) (rs_init_d r) (rs_op_namask_d r) (init_s c) (op_namask_s c)
                 (rs_mem r) (rs_flags r);
          initd1 = rs_init_d r + int k1 * init_s c;
          maskd1 = rs_op_namask_d r + int k1 * op_namask_s c;
          opd1 = rs_op_d r + int k1 * op_s c;
          resd1 = rs_res_d r + int k1 * res_s c;
          cnt1 = rs_count r - k1;
          marked = mark_run cnt1 initd1 maskd1 (init_s c) (op_namask_s c) (rs_mem r) (rs_flags r);
          k2 = fst marked
      in \<lparr>rs_count = cnt1 - k2,
          rs_op_d = opd1 + int k2 * op_s c,
          rs_res_d = resd1 + int k2 * res_s c,
          rs_init_d = initd1 + int k2 * init_s c,
          rs_op_namask_d = maskd1 + int k2 * op_namask_s c,
          rs_mem = (rs_mem r)\<lparr>dmem := stransfer resd1 (res_s c) opd1 (op_s c) k2 (dmem (rs_mem r))\<rparr>,
          rs_flags = snd marked,
          rs_countdown = rs_countdown r - int k2\<rparr>)"

lemma seed_run_step_decreases:
  "0 < rs_count r \<Longrightarrow> rs_count (seed_run_step c r) < rs_count r"
proof -
  assume pos: "0 < rs_count r"
  define k1 where "k1 = skip_run (rs_count r) (rs_init_d r) (rs_op_namask_d r) (init_s c) (op_namask_s c)
                 (rs_mem r) (rs_flags r)"
  define k2 where "k2 = fst (mark_run (rs_count r - k1) (rs_init_d r + int k1 * init_s c)
        (rs_op_namask_d r + int k1 * op_namask_s c) (init_s c) (op_namask_s c) (rs_mem r) (rs_flags r))"
  have eq: "rs_count (seed_run_step c r) = rs_count r - k1 - k2"
    by (simp add: seed_run_step_def Let_def k1_def k2_def)
  have "0 < k1 + k2"
  proof (cases "k1 = 0")
    case True
    then show ?thesis
      using run_progress[OF pos, of "rs_init_d r" "rs_op_namask_d r" "init_s c" "op_namask_s c" "rs_mem r" "rs_flags r"]
      by (simp add: k1_def[symmetric] k2_def)
  qed simp
  then show ?thesis using pos eq by simp
qed

function seed_runs :: "seed_chunk \<Rightarrow> run_state \<Rightarrow> bool \<times> run_state" where
  "seed_runs c r =
     (let r' = seed_run_step c r
      in if rs_countdown r' = 0 then (True, r')
         else if rs_count r' > 0 then seed_runs c r'
         else (False, r'))"
  by pat_completeness auto
termination
proof (relation "measure (\<lambda>(c, r). rs_count r)", goal_cases)
  case 1
  show ?case by simp
next
  case (2 c r r')
  then have "0 < rs_count r"
    by (cases "rs_count r = 0") (simp_all add: seed_run_step_def Let_def)
  with 2 show ?case using seed_run_step_decreases[of r c] by simp
qed

declare seed_runs.simps [simp del]

fun seed_chunks ::
  "seed_chunk list \<Rightarrow> memory \<times> (int \<Rightarrow> bool) \<times> int \<Rightarrow> memory \<times> (int \<Rightarrow> bool) \<times> int" where
  \<comment> \<open>The loop \<^verbatim>\<open>do ... while (iternext(iter))\<close> over the iterator's chunks.\<close>
  "seed_chunks [] st = st"
| "seed_chunks (c # cs) (s, flags, countdown) =
     (let (finish, s', flags', countdown') =
            (if res_s c = 0
             then seed_first c (count c) 0 (init_d c) (op_namask_d c) (s, flags, countdown)
             else (let (fin, r) =
                         seed_runs c \<lparr>rs_count = count c, rs_op_d = op_d c, rs_res_d = res_d c,
                                      rs_init_d = init_d c, rs_op_namask_d = op_namask_d c,
                                      rs_mem = s, rs_flags = flags, rs_countdown = countdown\<rparr>
                   in (fin, rs_mem r, rs_flags r, rs_countdown r)))
      in if finish then (s', flags', countdown') else seed_chunks cs (s', flags', countdown'))"

definition initialize_reduce_result_noidentity_skipna ::
  "PyArrayObject \<Rightarrow> PyArrayObject \<Rightarrow> bool list \<Rightarrow> memory \<Rightarrow> (error + PyArrayObject) \<times> memory" where
  "initialize_reduce_result_noidentity_skipna operand result axis_flags s =
     (let (operand', s1) = PyArray_AllocateMaskNA (PyArray_View operand) s;
          initialized = \<lparr>data = 0, dimensions = dimensions result,
                         strides = contiguous_strides 1 (dimensions result),
                         descr = bool_descr, maskna = None\<rparr>;
          start = (s1, (\<lambda>_. False), PyArray_SIZE result)
      in case NpyIter_MultiNew operand' result initialized of
           Inl e \<Rightarrow> (Inl e, s1)
         | Inr (itersize, chunks) \<Rightarrow>
             (let (s2, flags, initialized_countdown) =
                    (if itersize \<noteq> 0 then seed_chunks chunks start else start)
              in if initialized_countdown \<noteq> 0 then (Inl AllMissingError, s2)
                 else (Inr operand',
                       if PyArray_HASMASKNA result then PyArray_AssignMaskNA result 1 s2 else s2)))"

section \<open>FirstElementInitializer: \<^verbatim>\<open>PyArray_InitializeReduceResult\<close>\<close>

function shrink_to_exposed ::
  "int \<Rightarrow> int \<Rightarrow> int \<Rightarrow> int \<Rightarrow> int \<Rightarrow> memory \<Rightarrow> int \<times> int \<times> int" where
  \<comment> \<open>Shrink the array from the start until an exposed element is found: the arguments
     are \<^verbatim>\<open>shape0\<close>, \<^verbatim>\<open>data\<close>, \<^verbatim>\<open>maskna_data\<close> and the two strides.\<close>
  "shrink_to_exposed shape0 dat mdat st mst s =
     (if shape0 > 0 \<and> \<not> NpyMaskValue_IsExposed (mmem s mdat)
      then shrink_to_exposed (shape0 - 1) (dat + st) (mdat + mst) st mst s
      else (shape0, dat, mdat))"
  by pat_completeness auto
termination
  by (relation "measure (\<lambda>(shape0, dat, mdat, st, mst, s). nat shape0)") auto

declare shrink_to_exposed.simps [simp del]

definition nreduce_axes :: "nat \<Rightarrow> bool list \<Rightarrow> nat" where
  "nreduce_axes ndim axis_flags = length (filter (\<lambda>idim. axis_flags ! idim) [0..<ndim])"

definition copy_first_and_shrink ::
  "PyArrayObject \<Rightarrow> PyArrayObject \<Rightarrow> PyArrayObject \<Rightarrow> nat \<Rightarrow> bool list \<Rightarrow> memory
     \<Rightarrow> (error + (PyArrayObject \<times> int)) \<times> memory" where
  \<comment> \<open>The common tail of \<^verbatim>\<open>PyArray_InitializeReduceResult\<close>: copy the subarray of the
     first element along each reduction axis, then return a view to the rest and the
     skip count.\<close>
  "copy_first_and_shrink result operand op_view ndim axis_flags s =
     (let shape_orig = dimensions op_view;
          shape = map (\<lambda>idim. if axis_flags ! idim then 1 else shape_orig ! idim) [0..<ndim]
      in case PyArray_AssignArray result (op_view\<lparr>dimensions := shape\<rparr>) True s of
           Inl e \<Rightarrow> (Inl e, s)
         | Inr s1 \<Rightarrow>
             (if nreduce_axes ndim axis_flags = 1
              then (Inr (op_view\<lparr>
                      dimensions := map (\<lambda>idim. if axis_flags ! idim then shape_orig ! idim - 1
                                                 else shape ! idim) [0..<ndim],
                      data := data op_view +
                        sum_list (map (\<lambda>idim. strides op_view ! idim)
                                   (filter (\<lambda>idim. axis_flags ! idim) [0..<ndim])),
                      maskna := map_option
                        (\<lambda>m. m\<lparr>maskna_data := maskna_data m +
                                 sum_list (map (\<lambda>idim. maskna_strides m ! idim)
                                            (filter (\<lambda>idim. axis_flags ! idim) [0..<ndim]))\<rparr>)
                        (maskna op_view)\<rparr>, 0), s1)
              else if nreduce_axes ndim axis_flags = 0
              then (Inr (op_view\<lparr>dimensions := replicate ndim 0\<rparr>, 0), s1)
              else (Inr (operand, PyArray_SIZE result), s1)))"

definition PyArray_InitializeReduceResult ::
  "PyArrayObject \<Rightarrow> PyArrayObject \<Rightarrow> bool list \<Rightarrow> bool \<Rightarrow> bool \<Rightarrow> memory
     \<Rightarrow> (error + (PyArrayObject \<times> int)) \<times> memory" where
  \<comment> \<open>Returns the view of the remaining elements together with \<^verbatim>\<open>out_skip_first_count\<close>.\<close>
  "PyArray_InitializeReduceResult result operand axis_flags reorderable skipna s =
     (let ndim = PyArray_NDIM operand
      in if \<not> reorderable \<and> check_nonreorderable_axes ndim axis_flags \<noteq> Inr ()
         then (Inl NonReorderableError, s)
         else if \<not> skipna \<or> \<not> PyArray_HASMASKNA operand
         then (if PyArray_SIZE operand = 0 then (Inl EmptyReductionError, s)
               else copy_first_and_shrink result operand (PyArray_View operand) ndim axis_flags s)
         else if ndim = 1
         then (case maskna operand of
                 None \<Rightarrow> (Inl IteratorError, s)
               | Some m \<Rightarrow>
                   (let op_view = PyArray_View operand;
                        (shape0, dat, mdat) =
                           shrink_to_exposed (dimensions op_view ! 0) (data op_view)
                             (maskna_data m) (strides op_view ! 0) (maskna_strides m ! 0) s
                    in if shape0 = 0 then (Inl AllMissingError, s)
                       else copy_first_and_shrink result operand
                              (op_view\<lparr>dimensions := (dimensions op_view)[0 := shape0],
                                       data := dat,
                                       maskna := Some (m\<lparr>maskna_data := mdat\<rparr>)\<rparr>)
                              ndim axis_flags s))
         else (case initialize_reduce_result_noidentity_skipna operand result axis_flags s of
                 (Inl e, s') \<Rightarrow> (Inl e, s')
               | (Inr op_view, s') \<Rightarrow> (Inr (op_view, 0), s')))"


section \<open>ReductionOrchestrator: \<^verbatim>\<open>PyArray_ReduceWrapper\<close>\<close>

datatype NPY_CASTING =
  NPY_NO_CASTING | NPY_EQUIV_CASTING | NPY_SAFE_CASTING | NPY_SAME_KIND_CASTING
  | NPY_UNSAFE_CASTING

record NpyIter_operand =
  itop_data :: int
  itop_strides :: "int list"
  itop_descr :: PyArray_Descr
  itop_dtype :: PyArray_Descr
  itop_maskna :: "(int \<times> int list) option"

record NpyIter =
  it_shape :: "int list"
  it_operands :: "NpyIter_operand list"
  it_casting :: NPY_CASTING
  it_buffersize :: int

type_synonym assign_identity_func = "PyArrayObject \<Rightarrow> bool \<Rightarrow> memory \<Rightarrow> int \<times> memory"

type_synonym reduce_loop_func = "NpyIter \<Rightarrow> int \<Rightarrow> memory \<Rightarrow> int \<times> memory"

definition iter_operand :: "PyArrayObject \<Rightarrow> bool \<Rightarrow> PyArray_Descr \<Rightarrow> NpyIter_operand" where
  \<comment> \<open>What the iterator hands to an inner loop for one operand: the mask pointer and mask
     strides only when the operand is tagged mask-use, never when it is tagged
     mask-ignore.\<close>
  "iter_operand arr use_mask dtype =
     \<lparr>itop_data = data arr,
      itop_strides = broadcast_strides (dimensions arr) (strides arr),
      itop_descr = descr arr,
      itop_dtype = dtype,
      itop_maskna = (if use_mask
                     then map_option (\<lambda>m. (maskna_data m,
                                            broadcast_strides (dimensions arr) (maskna_strides m)))
                            (maskna arr)
                     else None)\<rparr>"

definition NpyIter_AdvancedNew ::
  "PyArrayObject \<Rightarrow> PyArrayObject \<Rightarrow> bool \<Rightarrow> bool \<Rightarrow> PyArray_Descr \<Rightarrow> PyArray_Descr
     \<Rightarrow> NPY_CASTING \<Rightarrow> int \<Rightarrow> error + NpyIter" where
  \<comment> \<open>Modelled from the spec: the Iterator collaborator over (result, remainder), each
     operand tagged mask-use or mask-ignore. It fails when the shapes do not match or a
     mask-use operand has no mask.\<close>
  "NpyIter_AdvancedNew result op_view use_mask0 use_mask1 result_dtype operand_dtype casting
       buffersize =
     (case broadcast_shape (dimensions result) (dimensions op_view) of
        None \<Rightarrow> Inl BroadcastError
      | Some shape \<Rightarrow>
          (if (use_mask0 \<and> \<not> PyArray_HASMASKNA result) \<or> (use_mask1 \<and> \<not> PyArray_HASMASKNA op_view)
           then Inl IteratorError
           else Inr \<lparr>it_shape = shape,
                     it_operands = [iter_operand result use_mask0 result_dtype,
                                    iter_operand op_view use_mask1 operand_dtype],
                     it_casting = casting, it_buffersize = buffersize\<rparr>))"

definition call_loop ::
  "reduce_loop_func option \<Rightarrow> NpyIter \<Rightarrow> int \<Rightarrow> memory \<Rightarrow> error option \<times> memory" where
  "call_loop f iter skip_first_count s =
     (case f of
        None \<Rightarrow> (Some MissingLoopError, s)
      | Some inner_loop \<Rightarrow>
          (let (rc, s') = inner_loop iter skip_first_count s
           in (if rc < 0 then Some CallbackError else None, s')))"

definition reduce_run_loop ::
  "PyArrayObject \<Rightarrow> PyArrayObject \<Rightarrow> bool \<Rightarrow> bool \<Rightarrow> PyArray_Descr \<Rightarrow> PyArray_Descr
     \<Rightarrow> NPY_CASTING \<Rightarrow> int \<Rightarrow> reduce_loop_func option \<Rightarrow> reduce_loop_func option
     \<Rightarrow> reduce_loop_func option \<Rightarrow> int \<Rightarrow> memory \<Rightarrow> error option \<times> memory" where
  \<comment> \<open>Setting up the iterator and running the one inner loop the masking state selects.\<close>
  "reduce_run_loop result op_view use_maskna skipna result_dtype operand_dtype casting buffersize
       loop masked_loop advanced_masked_loop skip_first_count s =
     (let use_mask0 = (use_maskna \<and> \<not> skipna);
          use_mask1 = (use_maskna \<and> (skipna \<or> advanced_masked_loop \<noteq> None))
      in case NpyIter_AdvancedNew result op_view use_mask0 use_mask1 result_dtype operand_dtype
                casting buffersize of
           Inl e \<Rightarrow> (Some e, s)
         | Inr iter \<Rightarrow>
             (if prod_list (it_shape iter) \<noteq> 0
              then (if \<not> use_maskna then call_loop loop iter skip_first_count s
                    else if \<not> skipna \<and> advanced_masked_loop \<noteq> None
                    then call_loop advanced_masked_loop iter skip_first_count s
                    else call_loop masked_loop iter skip_first_count s)
              else (None, s)))"

definition reduce_finish ::
  "PyArrayObject option \<Rightarrow> PyArrayObject \<Rightarrow> bool list \<Rightarrow> bool \<Rightarrow> PyArrayObject" where
  \<comment> \<open>The code at the label \<^verbatim>\<open>finish\<close>.\<close>
  "reduce_finish out result axis_flags keepdims =
     (case out of
        None \<Rightarrow> (if \<not> keepdims then PyArray_RemoveAxesInPlace result axis_flags else result)
      | Some out' \<Rightarrow> out')"

definition reduce_use_maskna ::
  "PyArrayObject \<Rightarrow> PyArrayObject option \<Rightarrow> bool \<Rightarrow> memory \<Rightarrow> error + bool" where
  \<comment> \<open>The value of \<^verbatim>\<open>use_maskna\<close> after the check of an operand with a mask against an
     output without one.\<close>
  "reduce_use_maskna operand out skipna s =
     (if PyArray_HASMASKNA operand \<and> \<not> skipna \<and>
         (case out of None \<Rightarrow> False | Some out' \<Rightarrow> \<not> PyArray_HASMASKNA out')
      then (if PyArray_ContainsNA operand s then Inl MaskSupportError else Inr False)
      else Inr (PyArray_HASMASKNA operand))"

definition result_is_hidden_scalar :: "PyArrayObject \<Rightarrow> memory \<Rightarrow> bool" where
  \<comment> \<open>The result is a single cell and its mask byte is not exposed.\<close>
  "result_is_hidden_scalar result s =
     (PyArray_SIZE result = 1 \<and>
      (case maskna result of
         None \<Rightarrow> False
       | Some m \<Rightarrow> \<not> NpyMaskValue_IsExposed (mmem s (maskna_data m))))"

definition reduce_initialize_and_loop ::
  "PyArrayObject \<Rightarrow> PyArrayObject option \<Rightarrow> PyArrayObject \<Rightarrow> bool \<Rightarrow> PyArray_Descr
     \<Rightarrow> PyArray_Descr \<Rightarrow> NPY_CASTING \<Rightarrow> bool list \<Rightarrow> bool \<Rightarrow> bool \<Rightarrow> bool
     \<Rightarrow> assign_identity_func option \<Rightarrow> reduce_loop_func option \<Rightarrow> reduce_loop_func option
     \<Rightarrow> reduce_loop_func option \<Rightarrow> int \<Rightarrow> memory \<Rightarrow> (error + PyArrayObject) \<times> memory" where
  \<comment> \<open>The wrapper from the initialization of the result to its return value.\<close>
  "reduce_initialize_and_loop operand out result use_maskna operand_dtype result_dtype casting
       axis_flags reorderable skipna keepdims assign_identity loop masked_loop
       advanced_masked_loop buffersize s =
     (let run = (\<lambda>op_view skip_first_count s'.
                  case reduce_run_loop result op_view use_maskna skipna result_dtype operand_dtype
                         casting buffersize loop masked_loop advanced_masked_loop
                         skip_first_count s' of
                    (Some e, s'') \<Rightarrow> (Inl e, s'')
                  | (None, s'') \<Rightarrow> (Inr (reduce_finish out result axis_flags keepdims), s''))
      in case assign_identity of
           Some identity \<Rightarrow>
             (if \<not> reorderable \<and>
                 check_nonreorderable_axes (PyArray_NDIM operand) axis_flags \<noteq> Inr ()
              then (Inl NonReorderableError, s)
              else (let (rc, s') = identity result (\<not> skipna) s
                    in if rc < 0 then (Inl CallbackError, s') else run operand 0 s'))
         | None \<Rightarrow>
             (case PyArray_InitializeReduceResult result operand axis_flags reorderable skipna s of
                (Inl e, s') \<Rightarrow> (Inl e, s')
              | (Inr (op_view, skip_first_count), s') \<Rightarrow>
                  (if PyArray_SIZE op_view = 0
                   then (Inr (reduce_finish out result axis_flags keepdims), s')
                   else run op_view skip_first_count s')))"

definition PyArray_ReduceWrapper ::
  "PyArrayObject \<Rightarrow> PyArrayObject option \<Rightarrow> PyArrayObject option \<Rightarrow> PyArray_Descr
     \<Rightarrow> PyArray_Descr \<Rightarrow> NPY_CASTING \<Rightarrow> bool list \<Rightarrow> bool \<Rightarrow> bool \<Rightarrow> bool list option \<Rightarrow> bool
     \<Rightarrow> bool \<Rightarrow> assign_identity_func option \<Rightarrow> reduce_loop_func option
     \<Rightarrow> reduce_loop_func option \<Rightarrow> reduce_loop_func option \<Rightarrow> int \<Rightarrow> memory
     \<Rightarrow> (error + PyArrayObject) \<times> memory" where
  "PyArray_ReduceWrapper operand out wheremask operand_dtype result_dtype casting axis_flags
       reorderable skipna skipwhichna keepdims subok assign_identity loop masked_loop
       advanced_masked_loop buffersize s =
     (if wheremask \<noteq> None then (Inl WhereMaskError, s)
      else if skipwhichna \<noteq> None then (Inl MultiNAError, s)
      else
        (case reduce_use_maskna operand out skipna s of
           Inl e \<Rightarrow> (Inl e, s)
         | Inr use_maskna \<Rightarrow>
             (case PyArray_CreateReduceResult operand out (Some result_dtype) axis_flags
                     (\<not> skipna \<and> use_maskna) keepdims subok s of
                Inl e \<Rightarrow> (Inl e, s)
              | Inr (result, s1) \<Rightarrow>
                  (case (if use_maskna \<and> \<not> skipna
                         then PyArray_ReduceMaskNAArray operand result s1 else Inr s1) of
                     Inl e \<Rightarrow> (Inl e, s1)
                   | Inr s2 \<Rightarrow>
                       (if use_maskna \<and> \<not> skipna \<and> advanced_masked_loop = None \<and>
                           result_is_hidden_scalar result s2
                        then (Inr (reduce_finish out result axis_flags keepdims), s2)
                        else reduce_initialize_and_loop operand out result use_maskna
                               operand_dtype result_dtype casting axis_flags reorderable skipna
                               keepdims assign_identity loop masked_loop advanced_masked_loop
                               buffersize s2)))))"

section \<open>ElementCounter: \<^verbatim>\<open>PyArray_CountReduceItems\<close>\<close>

datatype count_items = CountScalar int | CountArray PyArrayObject

fun count_inner :: "nat \<Rightarrow> int \<Rightarrow> int \<Rightarrow> int \<Rightarrow> int \<Rightarrow> memory \<Rightarrow> memory" where
  \<comment> \<open>The inner loop \<^verbatim>\<open>*(npy_intp *)result_d += *operand_d\<close>, where \<^verbatim>\<open>operand_d\<close> walks
     the operand's mask.\<close>
  "count_inner 0 operand_d result_d operand_s result_s s = s"
| "count_inner (Suc n) operand_d result_d operand_s result_s s =
     count_inner n (operand_d + operand_s) (result_d + result_s) operand_s result_s
       (s\<lparr>dmem := (dmem s)(result_d := dmem s result_d + mmem s operand_d)\<rparr>)"

definition PyArray_PrepareTwoRawArrayIter ::
  "nat \<Rightarrow> int list \<Rightarrow> int list \<Rightarrow> int list \<Rightarrow> int list \<times> int list \<times> int list" where
  \<comment> \<open>Modelled from the spec: the preparation of the matched-stride nested pass. A
     zero-dimensional pair is iterated as one axis of size 1; the order of the axes is
     kept. Returns the shape and the two stride vectors of the pass.\<close>
  "PyArray_PrepareTwoRawArrayIter ndim shape stridesA stridesB =
     (if ndim = 0 then ([1], [0], [0]) else (shape, stridesA, stridesB))"

definition raw_iter_two ::
  "int list \<Rightarrow> int \<Rightarrow> int list \<Rightarrow> int \<Rightarrow> int list \<Rightarrow> memory \<Rightarrow> memory" where
  \<comment> \<open>Modelled from the spec: the nested pass of the raw-iteration macros; axis 0 is the
     inner loop of the source, the other axes are stepped around it.\<close>
  "raw_iter_two shape_it operand_data operand_strides_it result_data result_strides_it s =
     fold (\<lambda>coord s'.
             count_inner (nat (shape_it ! 0))
               (operand_data + byte_offset (tl operand_strides_it) coord)
               (result_data + byte_offset (tl result_strides_it) coord)
               (operand_strides_it ! 0) (result_strides_it ! 0) s')
          (index_space (tl shape_it)) s"

definition PyArray_CountReduceItems ::
  "PyArrayObject \<Rightarrow> bool list \<Rightarrow> bool \<Rightarrow> bool \<Rightarrow> memory \<Rightarrow> (error + count_items) \<times> memory" where
  \<comment> \<open>The array of counts is returned as the array itself; the final conversion of a
     zero-dimensional array to a scalar object by \<^verbatim>\<open>PyArray_Return\<close> is not part of the
     model.\<close>
  "PyArray_CountReduceItems operand axis_flags skipna keepdims s =
     (let ndim = PyArray_NDIM operand
      in if \<not> skipna \<or> \<not> PyArray_HASMASKNA operand
         then (Inr (CountScalar
                 (fold (\<lambda>idim cnt. if axis_flags ! idim then cnt * dimensions operand ! idim
                                    else cnt) [0..<ndim] 1)), s)
         else (case maskna operand of
                 None \<Rightarrow> (Inl IteratorError, s)
               | Some m \<Rightarrow>
                   (if PyArray_HASFIELDS operand then (Inl UnimplementedError, s)
                    else if type_num (maskna_dtype m) \<noteq> NPY_BOOL then (Inl UnimplementedError, s)
                    else
                      (case PyArray_CreateReduceResult operand None (Some intp_descr) axis_flags
                              False keepdims False s of
                         Inl e \<Rightarrow> (Inl e, s)
                       | Inr (result0, s1) \<Rightarrow>
                           (let s2 = PyArray_AssignZero result0 s1;
                                result = result0\<lparr>strides :=
                                   map (\<lambda>idim. if axis_flags ! idim then 0
                                                else strides result0 ! idim) [0..<ndim]\<rparr>;
                                (shape_it, operand_strides_it, result_strides_it) =
                                   PyArray_PrepareTwoRawArrayIter ndim (dimensions operand)
                                     (maskna_strides m) (strides result);
                                s3 = raw_iter_two shape_it (maskna_data m) operand_strides_it
                                       (data result) result_strides_it s2
                            in (Inr (CountArray
                                  (if \<not> keepdims then PyArray_RemoveAxesInPlace result axis_flags
                                   else result)), s3))))))"


definition reduced_shape :: "bool list \<Rightarrow> int list \<Rightarrow> int list" where
  \<comment> \<open>The operand's shape with every flagged axis set to 1.\<close>
  "reduced_shape axis_flags shape = map (axis_extent axis_flags shape) [0..<length shape]"

section \<open>Example inputs\<close>

definition mem0 :: memory where
  "mem0 = \<lparr>dmem = (\<lambda>_. 0), mmem = (\<lambda>_. 0), dbrk = 1000, mbrk = 1000\<rparr>"

definition float64 :: PyArray_Descr where
  "float64 = \<lparr>type_num = NPY_DOUBLE, elsize = 8, hasfields = False\<rparr>"

definition arr_f234 :: PyArrayObject where
  \<comment> \<open>A Fortran-ordered 2 x 3 x 4 array of doubles.\<close>
  "arr_f234 = \<lparr>data = 0, dimensions = [2, 3, 4], strides = [8, 16, 48], descr = float64, maskna = None\<rparr>"

definition mem_na :: memory where
  \<comment> \<open>Element storage holding \<open>[[7, 2], [3, 9]]\<close> at addresses 0, 8, 16, 24 and mask
     storage holding \<open>[[hidden, exposed], [exposed, hidden]]\<close> at addresses 0 to 3: the
     operand \<open>[[NA, 2], [3, NA]]\<close>.\<close>
  "mem_na = \<lparr>dmem = (\<lambda>a. if a = 0 then 7 else if a = 8 then 2 else if a = 16 then 3
                          else if a = 24 then 9 else 0),
             mmem = (\<lambda>a. if a = 1 \<or> a = 2 then 1 else 0), dbrk = 1000, mbrk = 1000\<rparr>"

definition arr_na :: PyArrayObject where
  "arr_na = \<lparr>data = 0, dimensions = [2, 2], strides = [16, 8], descr = float64,
             maskna = Some \<lparr>maskna_dtype = bool_descr, maskna_data = 0,
                            maskna_strides = [2, 1]\<rparr>\<rparr>"

definition res_rows :: PyArrayObject where
  \<comment> \<open>A result for the reduction of a 2 x 2 operand along axis 1.\<close>
  "res_rows = \<lparr>data = 100, dimensions = [2, 1], strides = [8, 0], descr = float64,
               maskna = None\<rparr>"

definition iter_address :: "NpyIter \<Rightarrow> nat \<Rightarrow> int list \<Rightarrow> int" where
  "iter_address iter k idx =
     itop_data (it_operands iter ! k) + byte_offset (itop_strides (it_operands iter ! k)) idx"

definition iter_exposed :: "NpyIter \<Rightarrow> nat \<Rightarrow> int list \<Rightarrow> memory \<Rightarrow> bool" where
  "iter_exposed iter k idx s =
     (case itop_maskna (it_operands iter ! k) of
        None \<Rightarrow> True
      | Some (md, ms) \<Rightarrow> NpyMaskValue_IsExposed (mmem s (md + byte_offset ms idx)))"

definition add_loop :: reduce_loop_func where
  \<comment> \<open>An inner loop of a sum: every element whose masks (as far as the iterator hands
     them out) are exposed is added to its result cell.\<close>
  "add_loop iter skip_first_count s =
     (0, s\<lparr>dmem := fold (\<lambda>idx m. if iter_exposed iter 0 idx s \<and> iter_exposed iter 1 idx s
                                   then m(iter_address iter 0 idx :=
                                          m (iter_address iter 0 idx) + m (iter_address iter 1 idx))
                                   else m)
                      (index_space (it_shape iter)) (dmem s)\<rparr>)"

definition assign_zero :: assign_identity_func where
  \<comment> \<open>The identity of a sum, as \<^verbatim>\<open>PyArray_AssignZero(result, NULL, preservena, NULL)\<close>:
     every cell becomes an exposed 0, except that with \<^verbatim>\<open>preservena\<close> a hidden cell is
     left as it is.\<close>
  "assign_zero result preservena s =
     (0, fold (\<lambda>idx s'.
            (case maskna result of
               None \<Rightarrow> s'\<lparr>dmem := (dmem s')(element_address result idx := 0)\<rparr>
             | Some m \<Rightarrow>
                 (if preservena \<and> \<not> NpyMaskValue_IsExposed (mmem s (mask_address m idx)) then s'
                  else s'\<lparr>dmem := (dmem s')(element_address result idx := 0),
                          mmem := (mmem s')(mask_address m idx := 1)\<rparr>)))
          (index_space (dimensions result)) s)"


definition arr_2x3 :: PyArrayObject where
  "arr_2x3 = \<lparr>data = 0, dimensions = [2, 3], strides = [24, 8], descr = float64, maskna = None\<rparr>"

definition mem_2x3 :: memory where
  \<comment> \<open>Element storage holding \<open>[[1, 2, 3], [4, 5, 6]]\<close> at addresses 0, 8, ..., 40.\<close>
  "mem_2x3 = \<lparr>dmem = (\<lambda>a. if 0 \<le> a \<and> a < 48 \<and> a mod 8 = 0 then a div 8 + 1 else 0),
              mmem = (\<lambda>_. 0), dbrk = 1000, mbrk = 1000\<rparr>"

definition out_2 :: PyArrayObject where
  \<comment> \<open>A caller's output of shape (2).\<close>
  "out_2 = \<lparr>data = 200, dimensions = [2], strides = [8], descr = float64, maskna = None\<rparr>"

definition out_2_masked :: PyArrayObject where
  \<comment> \<open>A caller's output of shape (2) with a validity mask at mask addresses 50 and 51.\<close>
  "out_2_masked = \<lparr>data = 200, dimensions = [2], strides = [8], descr = float64,
                   maskna = Some \<lparr>maskna_dtype = bool_descr, maskna_data = 50,
                                  maskna_strides = [1]\<rparr>\<rparr>"

definition arr_2x3_exposed :: PyArrayObject where
  \<comment> \<open>The 2 x 3 array with a validity mask at mask addresses 0 to 5.\<close>
  "arr_2x3_exposed = arr_2x3\<lparr>maskna := Some \<lparr>maskna_dtype = bool_descr, maskna_data = 0,
                                              maskna_strides = [3, 1]\<rparr>\<rparr>"

definition mem_2x3_exposed :: memory where
  \<comment> \<open>As \<open>mem_2x3\<close>, with every mask byte exposed.\<close>
  "mem_2x3_exposed = mem_2x3\<lparr>mmem := (\<lambda>_. 1)\<rparr>"


definition arr_0d :: PyArrayObject where
  \<comment> \<open>A zero-dimensional array: the single element at address 0.\<close>
  "arr_0d = \<lparr>data = 0, dimensions = [], strides = [], descr = float64, maskna = None\<rparr>"

definition line_mask :: maskna_fields where
  "line_mask = \<lparr>maskna_dtype = bool_descr, maskna_data = 0, maskna_strides = [1]\<rparr>"

definition arr_line :: PyArrayObject where
  \<comment> \<open>A one-dimensional array of three elements with a validity mask; in \<open>mem_na\<close> it is
     \<open>[NA, 2, 3]\<close>, in \<open>mem_2x3_exposed\<close> it is \<open>[1, 2, 3]\<close> with every element exposed.\<close>
  "arr_line = \<lparr>data = 0, dimensions = [3], strides = [8], descr = float64,
               maskna = Some line_mask\<rparr>"

definition res_one :: PyArrayObject where
  "res_one = \<lparr>data = 100, dimensions = [1], strides = [8], descr = float64, maskna = None\<rparr>"

definition res_line :: PyArrayObject where
  "res_line = \<lparr>data = 100, dimensions = [3], strides = [8], descr = float64, maskna = None\<rparr>"


section \<open>Properties of the ShapeBuilder\<close>

lemma build_strides_spec:
  assumes "distinct ps" "\<forall>p\<in>set ps. p < length strd" "length shape = length strd"
    and "build_strides ps axis_flags (strd, shape, stride) = (strd', shape', stride')"
  shows "length strd' = length strd \<and> length shape' = length shape \<and>
     stride' = stride * prod_list (map (axis_extent axis_flags shape) ps) \<and>
     (\<forall>i<length shape. shape' ! i = (if i \<in> set ps \<and> axis_flags ! i then 1 else shape ! i)) \<and>
     (\<forall>i<length strd. i \<notin> set ps \<longrightarrow> strd' ! i = strd ! i) \<and>
     (\<forall>k<length ps. strd' ! (ps ! k) =
        (if axis_flags ! (ps ! k) then 0
         else stride * prod_list (map (axis_extent axis_flags shape) (take k ps))))"
  using assms
proof (induction ps arbitrary: strd shape stride)
  case Nil
  then show ?case by simp
next
  case (Cons p ps)
  show ?case
  proof (cases "axis_flags ! p")
    case True
    have ext: "axis_extent axis_flags (shape[p := 1]) = axis_extent axis_flags shape" (is "?f = ?g")
    proof
      fix q show "?f q = ?g q" using True by (cases "q = p") (auto simp: axis_extent_def)
    qed
    from Cons.prems True have run:
      "build_strides ps axis_flags (strd[p := 0], shape[p := 1], stride) = (strd', shape', stride')"
      by simp
    have IH: "length strd' = length (strd[p := 0]) \<and> length shape' = length (shape[p := 1]) \<and>
     stride' = stride * prod_list (map (axis_extent axis_flags (shape[p := 1])) ps) \<and>
     (\<forall>i<length (shape[p := 1]). shape' ! i = (if i \<in> set ps \<and> axis_flags ! i then 1 else shape[p := 1] ! i)) \<and>
     (\<forall>i<length (strd[p := 0]). i \<notin> set ps \<longrightarrow> strd' ! i = strd[p := 0] ! i) \<and>
     (\<forall>k<length ps. strd' ! (ps ! k) =
        (if axis_flags ! (ps ! k) then 0
         else stride * prod_list (map (axis_extent axis_flags (shape[p := 1])) (take k ps))))"
      by (rule Cons.IH[OF _ _ _ run]) (use Cons.prems in auto)
    have p: "p \<notin> set ps" "p < length strd" using Cons.prems by auto
    show ?thesis
    proof (intro conjI allI impI)
      show "length strd' = length strd" using IH by simp
      show "length shape' = length shape" using IH by simp
      show "stride' = stride * prod_list (map (axis_extent axis_flags shape) (p # ps))"
        using IH True by (simp add: ext axis_extent_def)
      show "shape' ! i = (if i \<in> set (p # ps) \<and> axis_flags ! i then 1 else shape ! i)"
        if "i < length shape" for i
        using IH that True p Cons.prems(3) by (cases "i = p") auto
      show "strd' ! i = strd ! i" if "i < length strd" "i \<notin> set (p # ps)" for i
        using IH that by auto
      show "strd' ! ((p # ps) ! k) =
        (if axis_flags ! ((p # ps) ! k) then 0
         else stride * prod_list (map (axis_extent axis_flags shape) (take k (p # ps))))"
        if "k < length (p # ps)" for k
      proof (cases k)
        case 0
        then show ?thesis using IH p True by simp
      next
        case (Suc j)
        then have "j < length ps" using that by simp
        then show ?thesis using IH Suc True by (simp add: ext axis_extent_def)
      qed
    qed
  next
    case False
    from Cons.prems False have run:
      "build_strides ps axis_flags (strd[p := stride], shape, stride * shape ! p) = (strd', shape', stride')"
      by simp
    have IH: "length strd' = length (strd[p := stride]) \<and> length shape' = length shape \<and>
     stride' = (stride * shape ! p) * prod_list (map (axis_extent axis_flags shape) ps) \<and>
     (\<forall>i<length shape. shape' ! i = (if i \<in> set ps \<and> axis_flags ! i then 1 else shape ! i)) \<and>
     (\<forall>i<length (strd[p := stride]). i \<notin> set ps \<longrightarrow> strd' ! i = strd[p := stride] ! i) \<and>
     (\<forall>k<length ps. strd' ! (ps ! k) =
        (if axis_flags ! (ps ! k) then 0
         else (stride * shape ! p) * prod_list (map (axis_extent axis_flags shape) (take k ps))))"
      by (rule Cons.IH[OF _ _ _ run]) (use Cons.prems in auto)
    have p: "p \<notin> set ps" "p < length strd" using Cons.prems by auto
    show ?thesis
    proof (intro conjI allI impI)
      show "length strd' = length strd" using IH by simp
      show "length shape' = length shape" using IH by simp
      show "stride' = stride * prod_list (map (axis_extent axis_flags shape) (p # ps))"
        using IH False by (simp add: axis_extent_def)
      show "shape' ! i = (if i \<in> set (p # ps) \<and> axis_flags ! i then 1 else shape ! i)"
        if "i < length shape" for i
        using IH that False p by (cases "i = p") auto
      show "strd' ! i = strd ! i" if "i < length strd" "i \<notin> set (p # ps)" for i
        using IH that by auto
      show "strd' ! ((p # ps) ! k) =
        (if axis_flags ! ((p # ps) ! k) then 0
         else stride * prod_list (map (axis_extent axis_flags shape) (take k (p # ps))))"
        if "k < length (p # ps)" for k
      proof (cases k)
        case 0
        then show ?thesis using IH p False by simp
      next
        case (Suc j)
        then have "j < length ps" using that by simp
        then show ?thesis using IH Suc False by (simp add: axis_extent_def)
      qed
    qed
  qed
qed


lemma prod_list_map_rev: "prod_list (map f (rev xs)) = (prod_list (map f xs) :: int)"
  by (induction xs) (simp_all add: mult.commute)

lemma prod_list_all_one: "\<forall>x\<in>set xs. f x = (1::int) \<Longrightarrow> prod_list (map f xs) = 1"
  by (induction xs) simp_all

lemma strideperm_props:
  "distinct (PyArray_CreateSortedStridePerm ndim shape strd)"
  "set (PyArray_CreateSortedStridePerm ndim shape strd) = {0..<ndim}"
  "length (PyArray_CreateSortedStridePerm ndim shape strd) = ndim"
  "sorted (map (\<lambda>i. - \<bar>strd ! i\<bar>) (PyArray_CreateSortedStridePerm ndim shape strd))"
  by (simp_all add: PyArray_CreateSortedStridePerm_def)

text \<open>
  Claim C6. The array allocated by \<^verbatim>\<open>allocate_reduce_result\<close> has the operand's number of
  dimensions; every flagged axis has size 1 and stride 0; every other axis keeps the
  operand's size; the axes are taken in the order of the stride sort (a permutation of the
  axes, sorted by the operand's stride magnitude, largest first), and the stride of a
  non-flagged axis is the element size times the result's sizes of the axes after it in that
  order, so the last non-flagged axis of the order has the element size as stride. No mask
  is attached.
\<close>

theorem allocate_reduce_result_layout:
  assumes "length axis_flags = PyArray_NDIM arr"
    and "allocate_reduce_result arr axis_flags dtype subok s = (res, s')"
    and "perm = PyArray_CreateSortedStridePerm (PyArray_NDIM arr) (dimensions arr) (strides arr)"
    and "dt = (case dtype of None \<Rightarrow> descr arr | Some d \<Rightarrow> d)"
  shows "PyArray_NDIM res = PyArray_NDIM arr \<and> length (strides res) = PyArray_NDIM arr \<and>
     descr res = dt \<and> maskna res = None \<and>
     (\<forall>i<PyArray_NDIM arr. axis_flags ! i \<longrightarrow> dimensions res ! i = 1 \<and> strides res ! i = 0) \<and>
     (\<forall>i<PyArray_NDIM arr. \<not> axis_flags ! i \<longrightarrow> dimensions res ! i = dimensions arr ! i) \<and>
     distinct perm \<and> set perm = {0..<PyArray_NDIM arr} \<and>
     sorted (rev (map (\<lambda>i. \<bar>strides arr ! i\<bar>) perm)) \<and>
     (\<forall>k<PyArray_NDIM arr. \<not> axis_flags ! (perm ! k) \<longrightarrow>
        strides res ! (perm ! k) =
          elsize dt * prod_list (map (axis_extent axis_flags (dimensions arr)) (drop (Suc k) perm))) \<and>
     (\<forall>k<PyArray_NDIM arr. \<not> axis_flags ! (perm ! k) \<and>
          (\<forall>j<PyArray_NDIM arr. k < j \<longrightarrow> axis_flags ! (perm ! j)) \<longrightarrow>
        strides res ! (perm ! k) = elsize dt)"
proof -
  define n where "n = PyArray_NDIM arr"
  have perm: "distinct perm" "set perm = {0..<n}" "length perm = n"
    "sorted (map (\<lambda>i. - \<bar>strides arr ! i\<bar>) perm)"
    unfolding assms(3) n_def by (rule strideperm_props)+
  obtain strd shape stride where
    run: "build_strides (rev perm) axis_flags (replicate n 0, dimensions arr, elsize dt)
            = (strd, shape, stride)"
    by (metis prod_cases3)
  have res: "res = \<lparr>data = dbrk s, dimensions = shape, strides = strd, descr = dt, maskna = None\<rparr>"
    using assms(2) run[unfolded assms(3) assms(4) n_def]
    by (simp add: allocate_reduce_result_def Let_def PyArray_NewFromDescr_def assms(4))
  have B: "length strd = length (replicate n (0::int)) \<and> length shape = length (dimensions arr) \<and>
     stride = elsize dt * prod_list (map (axis_extent axis_flags (dimensions arr)) (rev perm)) \<and>
     (\<forall>i<length (dimensions arr). shape ! i =
         (if i \<in> set (rev perm) \<and> axis_flags ! i then 1 else dimensions arr ! i)) \<and>
     (\<forall>i<length (replicate n (0::int)). i \<notin> set (rev perm) \<longrightarrow> strd ! i = replicate n 0 ! i) \<and>
     (\<forall>k<length (rev perm). strd ! (rev perm ! k) =
        (if axis_flags ! (rev perm ! k) then 0
         else elsize dt * prod_list (map (axis_extent axis_flags (dimensions arr)) (take k (rev perm)))))"
    by (rule build_strides_spec[OF _ _ _ run]) (use perm in \<open>auto simp: n_def PyArray_NDIM_def\<close>)
  have nth: "strd ! (perm ! k) =
        (if axis_flags ! (perm ! k) then 0
         else elsize dt * prod_list (map (axis_extent axis_flags (dimensions arr)) (drop (Suc k) perm)))"
    if "k < n" for k
  proof -
    have k': "n - Suc k < length (rev perm)" using that perm by simp
    have a: "rev perm ! (n - Suc k) = perm ! k"
      using that perm by (simp add: rev_nth)
    have b: "take (n - Suc k) (rev perm) = rev (drop (Suc k) perm)"
      using that perm by (simp add: take_rev)
    from B k' have "strd ! (rev perm ! (n - Suc k)) =
        (if axis_flags ! (rev perm ! (n - Suc k)) then 0
         else elsize dt * prod_list (map (axis_extent axis_flags (dimensions arr)) (take (n - Suc k) (rev perm))))"
      by blast
    then show ?thesis
      unfolding a b by (simp only: prod_list_map_rev)
  qed
  have flagged: "dimensions res ! i = 1 \<and> strides res ! i = 0" if "i < n" "axis_flags ! i" for i
  proof -
    from that perm obtain k where k: "k < n" "perm ! k = i"
      by (metis atLeastLessThan_iff in_set_conv_nth zero_le)
    have "strd ! i = 0" using nth[OF k(1)] k(2) that by simp
    moreover have "shape ! i = 1" using B that perm by (simp add: n_def PyArray_NDIM_def)
    ultimately show ?thesis by (simp add: res)
  qed
  have unflagged: "dimensions res ! i = dimensions arr ! i" if "i < n" "\<not> axis_flags ! i" for i
    using B that by (simp add: res n_def PyArray_NDIM_def)
  have sorted_abs: "sorted (rev (map (\<lambda>i. \<bar>strides arr ! i\<bar>) perm))"
  proof -
    have "sorted (rev (map uminus (map (\<lambda>i. - \<bar>strides arr ! i\<bar>) perm)))"
      using perm(4) by (simp add: sorted_wrt_rev sorted_wrt_map sorted_map)
    then show ?thesis by (simp add: comp_def)
  qed
  have inner: "strides res ! (perm ! k) = elsize dt"
    if "k < n" "\<not> axis_flags ! (perm ! k)" "\<forall>j<n. k < j \<longrightarrow> axis_flags ! (perm ! j)" for k
  proof -
    have "\<forall>p\<in>set (drop (Suc k) perm). axis_extent axis_flags (dimensions arr) p = 1"
    proof
      fix p assume "p \<in> set (drop (Suc k) perm)"
      then obtain j where "j < length (drop (Suc k) perm)" "drop (Suc k) perm ! j = p"
        by (auto simp: in_set_conv_nth)
      then have "Suc k + j < n" "perm ! (Suc k + j) = p" using perm by auto
      then show "axis_extent axis_flags (dimensions arr) p = 1"
        using that(3) by (auto simp: axis_extent_def)
    qed
    then have "prod_list (map (axis_extent axis_flags (dimensions arr)) (drop (Suc k) perm)) = 1"
      by (rule prod_list_all_one)
    then show ?thesis using nth[OF that(1)] that(2) by (simp add: res)
  qed
  show ?thesis
    unfolding n_def[symmetric]
    using B flagged unflagged sorted_abs inner perm(1,2) nth
    by (simp add: res PyArray_NDIM_def n_def)
qed

theorem allocate_reduce_result_layout_witness:
  "length [False, True, False] = PyArray_NDIM arr_f234 \<and>
   PyArray_CreateSortedStridePerm (PyArray_NDIM arr_f234) (dimensions arr_f234) (strides arr_f234) = [2, 1, 0] \<and>
   dimensions (fst (allocate_reduce_result arr_f234 [False, True, False] None False mem0)) = [2, 1, 4] \<and>
   strides (fst (allocate_reduce_result arr_f234 [False, True, False] None False mem0)) = [8, 0, 16] \<and>
   strides (fst (allocate_reduce_result arr_f234 [False, True, False] None False mem0)) ! ([2, 1, 0] ! 0) =
     elsize float64 * prod_list (map (axis_extent [False, True, False] (dimensions arr_f234)) (drop (Suc 0) [2, 1, 0])) \<and>
   strides (fst (allocate_reduce_result arr_f234 [False, True, False] None False mem0)) ! ([2, 1, 0] ! 2) =
     elsize float64"
proof -
  have h1: "length [False, True, False] = PyArray_NDIM arr_f234"
    by (simp add: PyArray_NDIM_def arr_f234_def)
  have h2: "allocate_reduce_result arr_f234 [False, True, False] None False mem0 =
      (fst (allocate_reduce_result arr_f234 [False, True, False] None False mem0),
       snd (allocate_reduce_result arr_f234 [False, True, False] None False mem0))"
    by simp
  have h3: "[2, 1, 0] = PyArray_CreateSortedStridePerm (PyArray_NDIM arr_f234) (dimensions arr_f234) (strides arr_f234)"
    by code_simp
  have h4: "float64 = (case None of None \<Rightarrow> descr arr_f234 | Some d \<Rightarrow> d)"
    by (simp add: arr_f234_def)
  have e: "fst (allocate_reduce_result arr_f234 [False, True, False] None False mem0) =
   \<lparr>data = 1000, dimensions = [2, 1, 4], strides = [8, 0, 16], descr = float64, maskna = None\<rparr>"
    by code_simp
  show ?thesis
    using allocate_reduce_result_layout[OF h1 h2 h3 h4] h1 h3[symmetric] e
    by (simp add: PyArray_NDIM_def arr_f234_def float64_def axis_extent_def)
qed

section \<open>The non-reorderable check and the wrapper's control flow\<close>






lemma allocate_reduce_result_frame:
  "allocate_reduce_result arr axis_flags dtype subok s = (res, s') \<Longrightarrow>
   dmem s' = dmem s \<and> mmem s' = mmem s \<and> mbrk s' = mbrk s"
  by (auto simp: allocate_reduce_result_def Let_def PyArray_NewFromDescr_def split: prod.splits)










lemma PyArray_ReduceWrapper_cases:
  assumes run: "PyArray_ReduceWrapper operand out wheremask operand_dtype result_dtype casting
       axis_flags reorderable skipna skipwhichna keepdims subok assign_identity loop masked_loop
       advanced_masked_loop buffersize s = (r, s')"
  obtains
    (unsupported) "wheremask \<noteq> None \<or> skipwhichna \<noteq> None"
      "r = Inl WhereMaskError \<or> r = Inl MultiNAError" "s' = s"
  | (maskcheck) e where "wheremask = None" "skipwhichna = None"
      "reduce_use_maskna operand out skipna s = Inl e" "r = Inl e" "s' = s"
  | (create) use_maskna e where "wheremask = None" "skipwhichna = None"
      "reduce_use_maskna operand out skipna s = Inr use_maskna"
      "PyArray_CreateReduceResult operand out (Some result_dtype) axis_flags
         (\<not> skipna \<and> use_maskna) keepdims subok s = Inl e" "r = Inl e" "s' = s"
  | (maskreduce) use_maskna result s1 e where "wheremask = None" "skipwhichna = None"
      "reduce_use_maskna operand out skipna s = Inr use_maskna"
      "PyArray_CreateReduceResult operand out (Some result_dtype) axis_flags
         (\<not> skipna \<and> use_maskna) keepdims subok s = Inr (result, s1)"
      "use_maskna" "\<not> skipna"
      "PyArray_ReduceMaskNAArray operand result s1 = Inl e" "r = Inl e" "s' = s1"
  | (shortcut) use_maskna result s1 where "wheremask = None" "skipwhichna = None"
      "reduce_use_maskna operand out skipna s = Inr use_maskna"
      "PyArray_CreateReduceResult operand out (Some result_dtype) axis_flags
         (\<not> skipna \<and> use_maskna) keepdims subok s = Inr (result, s1)"
      "use_maskna" "\<not> skipna" "advanced_masked_loop = None"
      "PyArray_ReduceMaskNAArray operand result s1 = Inr s'"
      "result_is_hidden_scalar result s'"
      "r = Inr (reduce_finish out result axis_flags keepdims)"
  | (init) use_maskna result s1 s2 where "wheremask = None" "skipwhichna = None"
      "reduce_use_maskna operand out skipna s = Inr use_maskna"
      "PyArray_CreateReduceResult operand out (Some result_dtype) axis_flags
         (\<not> skipna \<and> use_maskna) keepdims subok s = Inr (result, s1)"
      "(if use_maskna \<and> \<not> skipna then PyArray_ReduceMaskNAArray operand result s1 else Inr s1)
         = Inr s2"
      "\<not> (use_maskna \<and> \<not> skipna \<and> advanced_masked_loop = None \<and> result_is_hidden_scalar result s2)"
      "reduce_initialize_and_loop operand out result use_maskna operand_dtype result_dtype
         casting axis_flags reorderable skipna keepdims assign_identity loop masked_loop
         advanced_masked_loop buffersize s2 = (r, s')"
proof (cases "wheremask \<noteq> None \<or> skipwhichna \<noteq> None")
  case True
  with run show ?thesis
    by (intro unsupported) (auto simp: PyArray_ReduceWrapper_def split: if_splits)
next
  case False
  then have n: "wheremask = None" "skipwhichna = None" by auto
  show ?thesis
  proof (cases "reduce_use_maskna operand out skipna s")
    case (Inl e)
    with run n show ?thesis
      by (intro maskcheck[of e]) (simp_all add: PyArray_ReduceWrapper_def)
  next
    case (Inr use_maskna)
    note um = this
    show ?thesis
    proof (cases "PyArray_CreateReduceResult operand out (Some result_dtype) axis_flags
         (\<not> skipna \<and> use_maskna) keepdims subok s")
      case (Inl e)
      with run n um show ?thesis
        by (intro create[of use_maskna e]) (simp_all add: PyArray_ReduceWrapper_def)
    next
      case (Inr p)
      then obtain result s1 where cr: "PyArray_CreateReduceResult operand out (Some result_dtype)
         axis_flags (\<not> skipna \<and> use_maskna) keepdims subok s = Inr (result, s1)"
        by (cases p) auto
      show ?thesis
      proof (cases "(if use_maskna \<and> \<not> skipna
                     then PyArray_ReduceMaskNAArray operand result s1 else Inr s1)")
        case (Inl e)
        then have c: "use_maskna" "\<not> skipna" "PyArray_ReduceMaskNAArray operand result s1 = Inl e"
          by (auto split: if_splits)
        from run n um cr Inl have "r = Inl e" "s' = s1"
          by (simp_all add: PyArray_ReduceWrapper_def)
        with n um cr c show ?thesis by (intro maskreduce[of use_maskna result s1 e])
      next
        case (Inr s2)
        note mr = this
        show ?thesis
        proof (cases "use_maskna \<and> \<not> skipna \<and> advanced_masked_loop = None \<and>
                      result_is_hidden_scalar result s2")
          case True
          with run n um cr mr have "r = Inr (reduce_finish out result axis_flags keepdims)" "s' = s2"
            by (simp_all add: PyArray_ReduceWrapper_def)
          with n um cr mr True show ?thesis
            by (intro shortcut[of use_maskna result s1]) auto
        next
          case False
          with run n um cr mr have "reduce_initialize_and_loop operand out result use_maskna
             operand_dtype result_dtype casting axis_flags reorderable skipna keepdims
             assign_identity loop masked_loop advanced_masked_loop buffersize s2 = (r, s')"
            by (simp add: PyArray_ReduceWrapper_def)
          with n um cr mr False show ?thesis
            by (intro init[of use_maskna result s1 s2])
        qed
      qed
    qed
  qed
qed




section \<open>The ScatteredSeeder on the operand \<open>[[NA, 2], [3, NA]]\<close>\<close>

text \<open>
  Claim C1 fails on the code. Reducing \<open>[[NA, 2], [3, NA]]\<close> along axis 1, the seeder succeeds
  and seeds the result with 2 and 3, the first exposed element of each row, but the private
  mask of the view it returns is an unchanged copy of the operand's mask: both seeds are still
  exposed. The wrapper then runs the masked inner loop over the view, and a sum loop adds each
  seed a second time: the result is \<open>[4, 6]\<close>.
\<close>

theorem scattered_seeder_keeps_seeds_exposed:
  "(case initialize_reduce_result_noidentity_skipna arr_na res_rows [False, True] mem_na of
      (Inl e, s') \<Rightarrow> False
    | (Inr view, s') \<Rightarrow>
        map (dmem s') [100, 108] = [2, 3] \<and>
        (case maskna view of
           None \<Rightarrow> False
         | Some m \<Rightarrow>
             maskna_data m = 1000 \<and>
             map (\<lambda>idx. NpyMaskValue_IsExposed (mmem s' (mask_address m idx)))
               (index_space (dimensions view)) = [False, True, True, False])) \<and>
   (case PyArray_ReduceWrapper arr_na None None float64 float64 NPY_UNSAFE_CASTING [False, True]
           True True None False False None (Some add_loop) (Some add_loop) None 0 mem_na of
      (Inl e, s') \<Rightarrow> False
    | (Inr r, s') \<Rightarrow>
        map (\<lambda>idx. dmem s' (element_address r idx)) (index_space (dimensions r)) = [4, 6])"
  by code_simp

section \<open>The shape of a freshly allocated result\<close>

lemma allocate_reduce_result_dimensions:
  assumes "allocate_reduce_result arr axis_flags dtype subok s = (res, s')"
  shows "dimensions res = reduced_shape axis_flags (dimensions arr)"
    and "maskna res = None"
    and "data res = dbrk s"
    and "descr res = (case dtype of None \<Rightarrow> descr arr | Some d \<Rightarrow> d)"
proof -
  define n where "n = PyArray_NDIM arr"
  define dt where "dt = (case dtype of None \<Rightarrow> descr arr | Some d \<Rightarrow> d)"
  define perm where "perm = PyArray_CreateSortedStridePerm n (dimensions arr) (strides arr)"
  have perm: "distinct perm" "set perm = {0..<n}"
    unfolding perm_def by (rule strideperm_props)+
  obtain strd shape stride where
    run: "build_strides (rev perm) axis_flags (replicate n 0, dimensions arr, elsize dt)
            = (strd, shape, stride)"
    by (metis prod_cases3)
  have res: "res = \<lparr>data = dbrk s, dimensions = shape, strides = strd, descr = dt, maskna = None\<rparr>"
    using assms run[unfolded perm_def dt_def n_def]
    by (simp add: allocate_reduce_result_def Let_def PyArray_NewFromDescr_def dt_def)
  have B: "length strd = length (replicate n (0::int)) \<and> length shape = length (dimensions arr) \<and>
     stride = elsize dt * prod_list (map (axis_extent axis_flags (dimensions arr)) (rev perm)) \<and>
     (\<forall>i<length (dimensions arr). shape ! i =
         (if i \<in> set (rev perm) \<and> axis_flags ! i then 1 else dimensions arr ! i)) \<and>
     (\<forall>i<length (replicate n (0::int)). i \<notin> set (rev perm) \<longrightarrow> strd ! i = replicate n 0 ! i) \<and>
     (\<forall>k<length (rev perm). strd ! (rev perm ! k) =
        (if axis_flags ! (rev perm ! k) then 0
         else elsize dt * prod_list (map (axis_extent axis_flags (dimensions arr)) (take k (rev perm)))))"
    by (rule build_strides_spec[OF _ _ _ run]) (use perm in \<open>auto simp: n_def PyArray_NDIM_def\<close>)
  have "shape = reduced_shape axis_flags (dimensions arr)"
    using B perm
    by (intro nth_equalityI) (auto simp: reduced_shape_def axis_extent_def n_def PyArray_NDIM_def)
  then show "dimensions res = reduced_shape axis_flags (dimensions arr)" by (simp add: res)
  show "maskna res = None" "data res = dbrk s" by (simp_all add: res)
  show "descr res = (case dtype of None \<Rightarrow> descr arr | Some d \<Rightarrow> d)"
    by (simp add: res dt_def)
qed

lemma length_reduced_shape [simp]: "length (reduced_shape axis_flags shape) = length shape"
  by (simp add: reduced_shape_def)

lemma reduced_shape_nth:
  "i < length shape \<Longrightarrow> reduced_shape axis_flags shape ! i = (if axis_flags ! i then 1 else shape ! i)"
  by (simp add: reduced_shape_def axis_extent_def)


lemma broadcast_reduced_shape_operand:
  "broadcast_shape shape (reduced_shape axis_flags shape) = Some shape"
proof -
  have a: "list_all2 (\<lambda>x y. x = y \<or> x = 1 \<or> y = 1) shape (reduced_shape axis_flags shape)"
    by (auto simp: list_all2_conv_all_nth reduced_shape_nth)
  have b: "map2 (\<lambda>x y. if x = 1 then y else x) shape (reduced_shape axis_flags shape) = shape"
    by (intro nth_equalityI) (auto simp: reduced_shape_nth)
  show ?thesis using a b by (simp add: broadcast_shape_def)
qed

section \<open>Zero-size operands\<close>









lemma PyArray_CreateReduceResult_new:
  assumes "PyArray_CreateReduceResult operand None dtype axis_flags need_namask keepdims subok s
     = Inr (result, s1)"
  shows "dimensions result = reduced_shape axis_flags (dimensions operand) \<and> data result = dbrk s"
proof -
  obtain res0 s0 where a: "allocate_reduce_result operand axis_flags dtype subok s = (res0, s0)"
    by (cases "allocate_reduce_result operand axis_flags dtype subok s")
  note d = allocate_reduce_result_dimensions[OF a]
  show ?thesis
  proof (cases need_namask)
    case True
    with assms a have "PyArray_AllocateMaskNA res0 s0 = (result, s1)"
      by (simp add: PyArray_CreateReduceResult_def)
    then have "dimensions result = dimensions res0" "data result = data res0"
      by (auto simp: PyArray_AllocateMaskNA_def Let_def)
    with d show ?thesis by simp
  next
    case False
    with assms a have "result = res0" by (simp add: PyArray_CreateReduceResult_def)
    with d show ?thesis by simp
  qed
qed












section \<open>What the wrapper returns\<close>

lemma reduce_initialize_and_loop_returns:
  assumes "reduce_initialize_and_loop operand out result use_maskna odt rdt casting axis_flags
     reorderable skipna keepdims assign_identity loop masked_loop advanced_masked_loop
     buffersize s = (Inr r, s')"
  shows "r = reduce_finish out result axis_flags keepdims"
proof (cases assign_identity)
  case None
  with assms show ?thesis
    by (auto simp: reduce_initialize_and_loop_def split: prod.splits sum.splits if_splits option.splits)
next
  case (Some identity)
  with assms show ?thesis
    by (auto simp: reduce_initialize_and_loop_def split: prod.splits sum.splits if_splits option.splits)
qed

lemma PyArray_ReduceWrapper_returns:
  assumes "PyArray_ReduceWrapper operand out wheremask operand_dtype result_dtype casting
       axis_flags reorderable skipna skipwhichna keepdims subok assign_identity loop masked_loop
       advanced_masked_loop buffersize s = (Inr r, s')"
  shows "\<exists>use_maskna result s1.
           PyArray_CreateReduceResult operand out (Some result_dtype) axis_flags
             (\<not> skipna \<and> use_maskna) keepdims subok s = Inr (result, s1) \<and>
           r = reduce_finish out result axis_flags keepdims"
  using assms
proof (cases rule: PyArray_ReduceWrapper_cases)
  case (shortcut use_maskna result s1)
  then show ?thesis by blast
next
  case (init use_maskna result s1 s2)
  from reduce_initialize_and_loop_returns[OF init(7)] init(4) show ?thesis by blast
qed auto

lemma remove_flagged_cong:
  "length ys = length xs \<Longrightarrow>
   (\<forall>i<length xs. i < length fl \<longrightarrow> \<not> fl ! i \<longrightarrow> ys ! i = xs ! i) \<Longrightarrow>
   remove_flagged fl ys = remove_flagged fl xs"
proof (induction fl arbitrary: xs ys)
  case Nil
  then show ?case by (simp add: remove_flagged_def)
next
  case (Cons f fl)
  show ?case
  proof (cases xs)
    case Nil
    with Cons.prems show ?thesis by (simp add: remove_flagged_def)
  next
    case xs: (Cons x xs')
    with Cons.prems obtain y ys' where ys: "ys = y # ys'" by (cases ys) auto
    have "remove_flagged fl ys' = remove_flagged fl xs'"
      by (rule Cons.IH) (use Cons.prems xs ys in \<open>auto simp: nth_Cons split: nat.splits\<close>)
    moreover have "\<not> f \<Longrightarrow> y = x" using Cons.prems(2) xs ys by auto
    ultimately show ?thesis using xs ys by (auto simp: remove_flagged_def)
  qed
qed

lemma remove_flagged_reduced_shape:
  "remove_flagged axis_flags (reduced_shape axis_flags shape) = remove_flagged axis_flags shape"
  by (rule remove_flagged_cong) (auto simp: reduced_shape_nth)

text \<open>
  Claim C8. When the wrapper succeeds and an output was supplied, the array returned is that
  output, as the caller passed it. When none was supplied, the array returned is freshly
  allocated; with \<open>keepdims\<close> its shape is the operand's with every flagged axis of size 1,
  without it the flagged axes are removed and the operand's other sizes remain.
\<close>

theorem reduce_wrapper_result:
  assumes "PyArray_ReduceWrapper operand out wheremask operand_dtype result_dtype casting
       axis_flags reorderable skipna skipwhichna keepdims subok assign_identity loop masked_loop
       advanced_masked_loop buffersize s = (Inr r, s')"
  shows "(case out of
            Some out' \<Rightarrow> r = out'
          | None \<Rightarrow>
              data r = dbrk s \<and>
              dimensions r = (if keepdims then reduced_shape axis_flags (dimensions operand)
                              else remove_flagged axis_flags (dimensions operand)))"
proof -
  from PyArray_ReduceWrapper_returns[OF assms] obtain use_maskna result s1 where
    cr: "PyArray_CreateReduceResult operand out (Some result_dtype) axis_flags
             (\<not> skipna \<and> use_maskna) keepdims subok s = Inr (result, s1)"
    and r: "r = reduce_finish out result axis_flags keepdims"
    by blast
  show ?thesis
  proof (cases out)
    case (Some out')
    with r show ?thesis by (simp add: reduce_finish_def)
  next
    case None
    from PyArray_CreateReduceResult_new[OF cr[unfolded None]]
    have "dimensions result = reduced_shape axis_flags (dimensions operand)" "data result = dbrk s"
      by simp_all
    with r None show ?thesis
      by (simp add: reduce_finish_def PyArray_RemoveAxesInPlace_def remove_flagged_reduced_shape)
  qed
qed


theorem reduce_wrapper_result_witness:
  "fst (PyArray_ReduceWrapper arr_2x3 None None float64 float64 NPY_UNSAFE_CASTING [False, True]
          True False None False False (Some assign_zero) (Some add_loop) None None 0 mem_2x3)
     = Inr \<lparr>data = 1000, dimensions = [2], strides = [8], descr = float64, maskna = None\<rparr> \<and>
   dbrk mem_2x3 = 1000 \<and> remove_flagged [False, True] (dimensions arr_2x3) = [2] \<and>
   fst (PyArray_ReduceWrapper arr_2x3 (Some out_2) None float64 float64 NPY_UNSAFE_CASTING
          [False, True] True False None False False None (Some add_loop) None None 0 mem_2x3)
     = Inr out_2"
proof -
  have a: "fst (PyArray_ReduceWrapper arr_2x3 None None float64 float64 NPY_UNSAFE_CASTING
          [False, True] True False None False False (Some assign_zero) (Some add_loop) None None 0
          mem_2x3)
     = Inr \<lparr>data = 1000, dimensions = [2], strides = [8], descr = float64, maskna = None\<rparr>"
    by code_simp
  have b: "isl (fst (PyArray_ReduceWrapper arr_2x3 (Some out_2) None float64 float64
          NPY_UNSAFE_CASTING [False, True] True False None False False None (Some add_loop) None
          None 0 mem_2x3)) = False"
    by code_simp
  then obtain r where r: "fst (PyArray_ReduceWrapper arr_2x3 (Some out_2) None float64 float64
          NPY_UNSAFE_CASTING [False, True] True False None False False None (Some add_loop) None
          None 0 mem_2x3) = Inr r"
    by (metis sum.collapse(2))
  have c: "dbrk mem_2x3 = 1000" "remove_flagged [False, True] (dimensions arr_2x3) = [2]"
    by code_simp+
  from reduce_wrapper_result[OF surjective_pairing[of "PyArray_ReduceWrapper arr_2x3 (Some out_2)
          None float64 float64 NPY_UNSAFE_CASTING [False, True] True False None False False None
          (Some add_loop) None None 0 mem_2x3", unfolded r]]
  have "r = out_2" by simp
  with a r c show ?thesis by simp
qed

section \<open>The skipna flag on operands without a mask\<close>

lemma PyArray_InitializeReduceResult_skipna_nomask:
  "\<not> PyArray_HASMASKNA operand \<Longrightarrow>
   PyArray_InitializeReduceResult result operand axis_flags reorderable True s
     = PyArray_InitializeReduceResult result operand axis_flags reorderable False s"
  by (simp add: PyArray_InitializeReduceResult_def Let_def)

lemma PyArray_CountReduceItems_skipna_nomask:
  "\<not> PyArray_HASMASKNA operand \<Longrightarrow>
   PyArray_CountReduceItems operand axis_flags True keepdims s
     = PyArray_CountReduceItems operand axis_flags False keepdims s"
  by (simp add: PyArray_CountReduceItems_def Let_def)

lemma reduce_run_loop_skipna_nomask:
  "reduce_run_loop result op_view False True rdt odt casting buffersize loop masked_loop
     advanced_masked_loop skip s
   = reduce_run_loop result op_view False False rdt odt casting buffersize loop masked_loop
     advanced_masked_loop skip s"
  by (simp add: reduce_run_loop_def Let_def split: sum.splits)

lemma reduce_initialize_and_loop_skipna_nomask:
  assumes "\<not> PyArray_HASMASKNA operand"
    and "\<forall>identity. assign_identity = Some identity \<longrightarrow>
           (\<forall>res m. identity res True m = identity res False m)"
  shows "reduce_initialize_and_loop operand out result False odt rdt casting axis_flags
           reorderable True keepdims assign_identity loop masked_loop advanced_masked_loop
           buffersize s
       = reduce_initialize_and_loop operand out result False odt rdt casting axis_flags
           reorderable False keepdims assign_identity loop masked_loop advanced_masked_loop
           buffersize s"
proof (cases assign_identity)
  case None
  then show ?thesis
    by (simp add: reduce_initialize_and_loop_def reduce_run_loop_skipna_nomask
        PyArray_InitializeReduceResult_skipna_nomask[OF assms(1)])
next
  case (Some identity)
  with assms(2) have "identity result True s = identity result False s" by simp
  then have "identity result (\<not> True) s = identity result (\<not> False) s" by simp
  with Some show ?thesis
    by (simp add: reduce_initialize_and_loop_def reduce_run_loop_skipna_nomask)
qed

lemma PyArray_ReduceWrapper_skipna_nomask:
  assumes "\<not> PyArray_HASMASKNA operand"
    and "\<forall>identity. assign_identity = Some identity \<longrightarrow>
           (\<forall>res m. identity res True m = identity res False m)"
  shows "PyArray_ReduceWrapper operand out wheremask odt rdt casting axis_flags reorderable
           True skipwhichna keepdims subok assign_identity loop masked_loop advanced_masked_loop
           buffersize s
       = PyArray_ReduceWrapper operand out wheremask odt rdt casting axis_flags reorderable
           False skipwhichna keepdims subok assign_identity loop masked_loop advanced_masked_loop
           buffersize s"
proof -
  have um: "reduce_use_maskna operand out sk s = Inr False" for sk
    using assms(1) by (simp add: reduce_use_maskna_def)
  show ?thesis
    unfolding PyArray_ReduceWrapper_def um
    by (simp add: reduce_initialize_and_loop_skipna_nomask[OF assms]
        split: sum.splits prod.splits)
qed

text \<open>
  Claim C10, as amended. For an operand without a validity mask the no-identity initializer
  and the element counter do the same for skipna enabled and disabled, and so does the whole
  wrapper for a reduction without an identity routine, or with one that does not depend on the
  flag it is handed. (The wrapper hands \<^verbatim>\<open>!skipna\<close> to the identity routine whether or not
  there is a mask; that is the one place where the flag is consulted without one.)
\<close>

theorem skipna_without_mask:
  assumes "\<not> PyArray_HASMASKNA operand"
  shows "PyArray_InitializeReduceResult result operand axis_flags reorderable True s
           = PyArray_InitializeReduceResult result operand axis_flags reorderable False s \<and>
         PyArray_CountReduceItems operand axis_flags True keepdims s
           = PyArray_CountReduceItems operand axis_flags False keepdims s \<and>
         ((\<forall>identity. assign_identity = Some identity \<longrightarrow>
             (\<forall>res m. identity res True m = identity res False m)) \<longrightarrow>
          PyArray_ReduceWrapper operand out wheremask odt rdt casting axis_flags reorderable
             True skipwhichna keepdims subok assign_identity loop masked_loop
             advanced_masked_loop buffersize s
          = PyArray_ReduceWrapper operand out wheremask odt rdt casting axis_flags reorderable
             False skipwhichna keepdims subok assign_identity loop masked_loop
             advanced_masked_loop buffersize s)"
  using PyArray_InitializeReduceResult_skipna_nomask[OF assms]
    PyArray_CountReduceItems_skipna_nomask[OF assms]
    PyArray_ReduceWrapper_skipna_nomask[OF assms]
  by simp

text \<open>
  Counterexample to claim C10 as stated: the sum of \<open>[[1, 2, 3], [4, 5, 6]]\<close> (no mask) along
  axis 1 into an output whose mask hides both cells. With skipna the identity routine is told
  to overwrite and the first output cell ends exposed; without skipna it is told to preserve
  hidden cells and the cell stays hidden.
\<close>

theorem skipna_reaches_identity_routine:
  "\<not> PyArray_HASMASKNA arr_2x3 \<and>
   mmem (snd (PyArray_ReduceWrapper arr_2x3 (Some out_2_masked) None float64 float64
                NPY_UNSAFE_CASTING [False, True] True True None False False (Some assign_zero)
                (Some add_loop) (Some add_loop) None 0 mem_2x3)) 50 = 1 \<and>
   mmem (snd (PyArray_ReduceWrapper arr_2x3 (Some out_2_masked) None float64 float64
                NPY_UNSAFE_CASTING [False, True] True False None False False (Some assign_zero)
                (Some add_loop) (Some add_loop) None 0 mem_2x3)) 50 = 0"
  by code_simp

theorem skipna_without_mask_witness:
  "\<not> PyArray_HASMASKNA arr_2x3 \<and>
   PyArray_CountReduceItems arr_2x3 [False, True] True False mem_2x3
     = PyArray_CountReduceItems arr_2x3 [False, True] False False mem_2x3 \<and>
   PyArray_ReduceWrapper arr_2x3 None None float64 float64 NPY_UNSAFE_CASTING [False, True]
      True True None False False None (Some add_loop) None None 0 mem_2x3
   = PyArray_ReduceWrapper arr_2x3 None None float64 float64 NPY_UNSAFE_CASTING [False, True]
      True False None False False None (Some add_loop) None None 0 mem_2x3 \<and>
   fst (PyArray_ReduceWrapper arr_2x3 None None float64 float64 NPY_UNSAFE_CASTING [False, True]
      True True None False False None (Some add_loop) None None 0 mem_2x3)
   = Inr \<lparr>data = 1000, dimensions = [2], strides = [8], descr = float64, maskna = None\<rparr>"
proof -
  have h: "\<not> PyArray_HASMASKNA arr_2x3" by code_simp
  have e: "fst (PyArray_ReduceWrapper arr_2x3 None None float64 float64 NPY_UNSAFE_CASTING
      [False, True] True True None False False None (Some add_loop) None None 0 mem_2x3)
   = Inr \<lparr>data = 1000, dimensions = [2], strides = [8], descr = float64, maskna = None\<rparr>"
    by code_simp
  show ?thesis
    using skipna_without_mask[OF h, where axis_flags = "[False, True]" and s = mem_2x3
        and keepdims = False and assign_identity = None and out = None and wheremask = None
        and odt = float64 and rdt = float64 and casting = NPY_UNSAFE_CASTING
        and reorderable = True and skipwhichna = None and subok = False
        and loop = "Some add_loop" and masked_loop = None and advanced_masked_loop = None
        and buffersize = 0] h e
    by simp
qed

section \<open>An operand with a mask and an output without one\<close>

lemma PyArray_AssignArray_ignores_src_mask:
  "PyArray_AssignArray dst (src\<lparr>maskna := None\<rparr>) preservena s
     = PyArray_AssignArray dst src preservena s"
  by (simp add: PyArray_AssignArray_def)

lemma copy_first_and_shrink_drop_mask:
  "copy_first_and_shrink result (operand\<lparr>maskna := None\<rparr>) (op_view\<lparr>maskna := None\<rparr>) ndim
     axis_flags s
   = (case copy_first_and_shrink result operand op_view ndim axis_flags s of
        (Inl e, s1) \<Rightarrow> (Inl e, s1)
      | (Inr (v, skip), s1) \<Rightarrow> (Inr (v\<lparr>maskna := None\<rparr>, skip), s1))"
proof -
  have a: "PyArray_AssignArray result (op_view\<lparr>maskna := None, dimensions := d\<rparr>) True s
      = PyArray_AssignArray result (op_view\<lparr>dimensions := d\<rparr>) True s" for d
    by (simp add: PyArray_AssignArray_def)
  show ?thesis
    by (simp add: copy_first_and_shrink_def Let_def a split: sum.splits)
qed

lemma PyArray_InitializeReduceResult_drop_mask:
  "PyArray_InitializeReduceResult result (operand\<lparr>maskna := None\<rparr>) axis_flags reorderable
     False s
   = (case PyArray_InitializeReduceResult result operand axis_flags reorderable False s of
        (Inl e, s1) \<Rightarrow> (Inl e, s1)
      | (Inr (v, skip), s1) \<Rightarrow> (Inr (v\<lparr>maskna := None\<rparr>, skip), s1))"
  by (simp add: PyArray_InitializeReduceResult_def Let_def PyArray_NDIM_def PyArray_SIZE_def
      PyArray_View_def copy_first_and_shrink_drop_mask)

lemma NpyIter_AdvancedNew_drop_mask:
  "NpyIter_AdvancedNew result (op_view\<lparr>maskna := None\<rparr>) False False rdt odt casting buffersize
   = NpyIter_AdvancedNew result op_view False False rdt odt casting buffersize"
  by (simp add: NpyIter_AdvancedNew_def iter_operand_def split: option.splits)

lemma reduce_run_loop_drop_mask:
  "reduce_run_loop result (op_view\<lparr>maskna := None\<rparr>) False skipna rdt odt casting buffersize
     loop masked_loop advanced_masked_loop skip s
   = reduce_run_loop result op_view False skipna rdt odt casting buffersize
     loop masked_loop advanced_masked_loop skip s"
  by (simp add: reduce_run_loop_def NpyIter_AdvancedNew_drop_mask Let_def)

lemma reduce_initialize_and_loop_drop_mask:
  "reduce_initialize_and_loop (operand\<lparr>maskna := None\<rparr>) out result False odt rdt casting
     axis_flags reorderable False keepdims assign_identity loop masked_loop advanced_masked_loop
     buffersize s
   = reduce_initialize_and_loop operand out result False odt rdt casting
     axis_flags reorderable False keepdims assign_identity loop masked_loop advanced_masked_loop
     buffersize s"
proof (cases assign_identity)
  case None
  show ?thesis
    unfolding reduce_initialize_and_loop_def None Let_def option.case
      PyArray_InitializeReduceResult_drop_mask
    by (simp add: reduce_run_loop_drop_mask PyArray_SIZE_def split: prod.splits sum.splits)
next
  case (Some identity)
  show ?thesis
    unfolding reduce_initialize_and_loop_def Some Let_def option.case
    by (simp add: reduce_run_loop_drop_mask PyArray_NDIM_def split: prod.splits)
qed

lemma PyArray_CreateReduceResult_drop_mask:
  "PyArray_CreateReduceResult (operand\<lparr>maskna := None\<rparr>) (Some out') dtype axis_flags need
     keepdims subok s
   = PyArray_CreateReduceResult operand (Some out') dtype axis_flags need keepdims subok s"
  by (simp add: PyArray_CreateReduceResult_def PyArray_NDIM_def)

text \<open>
  Claim C7. The operand carries a validity mask, the supplied output does not, skipna is
  disabled (and the two parameters reserved for future extensions are absent, as the interface
  requires). If the operand contains a hidden element, the call fails with MaskSupportError
  and the memory is as it was. If it contains none, the call does exactly what it does for the
  same operand without its mask: the same return value and the same final memory.
\<close>

theorem masked_operand_unmasked_output:
  assumes "PyArray_HASMASKNA operand" and "\<not> PyArray_HASMASKNA out'"
  shows "(PyArray_ContainsNA operand s \<longrightarrow>
            PyArray_ReduceWrapper operand (Some out') None odt rdt casting axis_flags reorderable
              False None keepdims subok assign_identity loop masked_loop advanced_masked_loop
              buffersize s = (Inl MaskSupportError, s)) \<and>
         (\<not> PyArray_ContainsNA operand s \<longrightarrow>
            PyArray_ReduceWrapper operand (Some out') None odt rdt casting axis_flags reorderable
              False None keepdims subok assign_identity loop masked_loop advanced_masked_loop
              buffersize s
            = PyArray_ReduceWrapper (operand\<lparr>maskna := None\<rparr>) (Some out') None odt rdt casting
                axis_flags reorderable False None keepdims subok assign_identity loop masked_loop
                advanced_masked_loop buffersize s)"
proof (intro conjI impI)
  assume na: "PyArray_ContainsNA operand s"
  then have "reduce_use_maskna operand (Some out') False s = Inl MaskSupportError"
    using assms by (simp add: reduce_use_maskna_def)
  then show "PyArray_ReduceWrapper operand (Some out') None odt rdt casting axis_flags reorderable
              False None keepdims subok assign_identity loop masked_loop advanced_masked_loop
              buffersize s = (Inl MaskSupportError, s)"
    by (simp add: PyArray_ReduceWrapper_def)
next
  assume na: "\<not> PyArray_ContainsNA operand s"
  have um: "reduce_use_maskna operand (Some out') False s = Inr False"
    using assms na by (simp add: reduce_use_maskna_def)
  have um': "reduce_use_maskna (operand\<lparr>maskna := None\<rparr>) (Some out') False s = Inr False"
    by (simp add: reduce_use_maskna_def PyArray_HASMASKNA_def)
  show "PyArray_ReduceWrapper operand (Some out') None odt rdt casting axis_flags reorderable
              False None keepdims subok assign_identity loop masked_loop advanced_masked_loop
              buffersize s
            = PyArray_ReduceWrapper (operand\<lparr>maskna := None\<rparr>) (Some out') None odt rdt casting
                axis_flags reorderable False None keepdims subok assign_identity loop masked_loop
                advanced_masked_loop buffersize s"
    unfolding PyArray_ReduceWrapper_def um um'
    by (simp add: PyArray_CreateReduceResult_drop_mask reduce_initialize_and_loop_drop_mask
        split: sum.splits prod.splits)
qed


theorem masked_operand_unmasked_output_witness:
  "PyArray_HASMASKNA arr_na \<and> \<not> PyArray_HASMASKNA out_2 \<and> PyArray_ContainsNA arr_na mem_na \<and>
   PyArray_ReduceWrapper arr_na (Some out_2) None float64 float64 NPY_UNSAFE_CASTING
     [False, True] True False None False False None (Some add_loop) None None 0 mem_na
     = (Inl MaskSupportError, mem_na) \<and>
   PyArray_HASMASKNA arr_2x3_exposed \<and> \<not> PyArray_ContainsNA arr_2x3_exposed mem_2x3_exposed \<and>
   PyArray_ReduceWrapper arr_2x3_exposed (Some out_2) None float64 float64 NPY_UNSAFE_CASTING
     [False, True] True False None False False None (Some add_loop) None None 0 mem_2x3_exposed
   = PyArray_ReduceWrapper (arr_2x3_exposed\<lparr>maskna := None\<rparr>) (Some out_2) None float64 float64
       NPY_UNSAFE_CASTING [False, True] True False None False False None (Some add_loop) None
       None 0 mem_2x3_exposed \<and>
   map (dmem (snd (PyArray_ReduceWrapper arr_2x3_exposed (Some out_2) None float64 float64
       NPY_UNSAFE_CASTING [False, True] True False None False False None (Some add_loop) None
       None 0 mem_2x3_exposed))) [200, 208] = [6, 15]"
proof -
  have h1: "PyArray_HASMASKNA arr_na" and h2: "\<not> PyArray_HASMASKNA out_2"
    and h3: "PyArray_ContainsNA arr_na mem_na"
    and h4: "PyArray_HASMASKNA arr_2x3_exposed"
    and h5: "\<not> PyArray_ContainsNA arr_2x3_exposed mem_2x3_exposed"
    by code_simp+
  have v: "map (dmem (snd (PyArray_ReduceWrapper arr_2x3_exposed (Some out_2) None float64 float64
       NPY_UNSAFE_CASTING [False, True] True False None False False None (Some add_loop) None
       None 0 mem_2x3_exposed))) [200, 208] = [6, 15]"
    by code_simp
  show ?thesis
    using masked_operand_unmasked_output[OF h1 h2, where s = mem_na and odt = float64
        and rdt = float64 and casting = NPY_UNSAFE_CASTING and axis_flags = "[False, True]"
        and reorderable = True and keepdims = False and subok = False
        and assign_identity = None and loop = "Some add_loop" and masked_loop = None
        and advanced_masked_loop = None and buffersize = 0]
      masked_operand_unmasked_output[OF h4 h2, where s = mem_2x3_exposed and odt = float64
        and rdt = float64 and casting = NPY_UNSAFE_CASTING and axis_flags = "[False, True]"
        and reorderable = True and keepdims = False and subok = False
        and assign_identity = None and loop = "Some add_loop" and masked_loop = None
        and advanced_masked_loop = None and buffersize = 0]
      h1 h2 h3 h4 h5 v
    by simp
qed

section \<open>Stores, index spaces and the element copy\<close>



lemma index_space_member:
  "idx \<in> set (index_space shape) \<Longrightarrow>
   length idx = length shape \<and> (\<forall>i<length shape. 0 \<le> idx ! i \<and> idx ! i < shape ! i)"
proof (induction shape arbitrary: idx)
  case Nil
  then show ?case by simp
next
  case (Cons d shape)
  then obtain i rest where idx: "idx = int i # rest" "i < nat d" "rest \<in> set (index_space shape)"
    by auto
  from Cons.IH[OF idx(3)] idx(1,2) show ?case
    by (auto simp: nth_Cons split: nat.splits)
qed

lemma byte_offset_Cons [simp]:
  "byte_offset (st # strd) (i # idx) = i * st + byte_offset strd idx"
  by (simp add: byte_offset_def)

lemma byte_offset_Nil [simp]: "byte_offset strd [] = 0" "byte_offset [] idx = 0"
  by (simp_all add: byte_offset_def)






lemma no_flagged_axis:
  "nreduce_axes ndim axis_flags = 0 \<Longrightarrow> i < ndim \<Longrightarrow> \<not> axis_flags ! i"
  by (auto simp: nreduce_axes_def filter_empty_conv)










text \<open>
  The case the amended claim leaves out: for a zero-dimensional operand (no axis, so none
  flagged) the view returned has no size to set to 0 and holds one element, the one already
  copied; the wrapper then runs the inner loop over it, and a sum loop counts it twice.
\<close>

lemma zero_dimensional_view_not_empty:
  "(case PyArray_InitializeReduceResult (arr_0d\<lparr>data := 100\<rparr>) arr_0d [] True False mem_2x3 of
      (Inl e, s') \<Rightarrow> False
    | (Inr (view, skip), s') \<Rightarrow> PyArray_SIZE view = 1 \<and> skip = 0 \<and> dmem s' 100 = 1) \<and>
   (case PyArray_ReduceWrapper arr_0d None None float64 float64 NPY_UNSAFE_CASTING [] True False
          None False False None (Some add_loop) None None 0 mem_2x3 of
      (Inl e, s') \<Rightarrow> False
    | (Inr r, s') \<Rightarrow> dmem s' (data r) = 2)"
  by code_simp

section \<open>The one-dimensional operand with a mask\<close>

lemma shrink_to_exposed_spec:
  "0 \<le> shape0 \<Longrightarrow>
   \<exists>k. 0 \<le> k \<and> k \<le> shape0 \<and>
       shrink_to_exposed shape0 dat mdat st mst s = (shape0 - k, dat + k * st, mdat + k * mst) \<and>
       (\<forall>i. 0 \<le> i \<and> i < k \<longrightarrow> \<not> NpyMaskValue_IsExposed (mmem s (mdat + i * mst))) \<and>
       (k < shape0 \<longrightarrow> NpyMaskValue_IsExposed (mmem s (mdat + k * mst)))"
proof (induction shape0 dat mdat st mst s rule: shrink_to_exposed.induct)
  case (1 shape0 dat mdat st mst s)
  show ?case
  proof (cases "shape0 > 0 \<and> \<not> NpyMaskValue_IsExposed (mmem s mdat)")
    case True
    then have "0 \<le> shape0 - 1" by simp
    from "1.IH"[OF True this] obtain k where k: "0 \<le> k" "k \<le> shape0 - 1"
      "shrink_to_exposed (shape0 - 1) (dat + st) (mdat + mst) st mst s
         = (shape0 - 1 - k, dat + st + k * st, mdat + mst + k * mst)"
      "\<forall>i. 0 \<le> i \<and> i < k \<longrightarrow> \<not> NpyMaskValue_IsExposed (mmem s (mdat + mst + i * mst))"
      "k < shape0 - 1 \<longrightarrow> NpyMaskValue_IsExposed (mmem s (mdat + mst + k * mst))"
      by blast
    have step: "shrink_to_exposed shape0 dat mdat st mst s
        = shrink_to_exposed (shape0 - 1) (dat + st) (mdat + mst) st mst s"
      using True by (subst shrink_to_exposed.simps) simp
    have hid: "\<not> NpyMaskValue_IsExposed (mmem s (mdat + i * mst))" if "0 \<le> i" "i < k + 1" for i
    proof (cases "i = 0")
      case True
      then show ?thesis using \<open>shape0 > 0 \<and> \<not> NpyMaskValue_IsExposed (mmem s mdat)\<close> by simp
    next
      case False
      then have "0 \<le> i - 1 \<and> i - 1 < k" using that by simp
      then have "\<not> NpyMaskValue_IsExposed (mmem s (mdat + mst + (i - 1) * mst))"
        using k(4) by blast
      moreover have "mdat + mst + (i - 1) * mst = mdat + i * mst" by (simp add: algebra_simps)
      ultimately show ?thesis by simp
    qed
    have a1: "dat + st + k * st = dat + (k + 1) * st" "mdat + mst + k * mst = mdat + (k + 1) * mst"
      by (simp_all add: algebra_simps)
    show ?thesis
    proof (intro exI[of _ "k + 1"] conjI allI impI)
      show "0 \<le> k + 1" "k + 1 \<le> shape0" using k by simp_all
      show "shrink_to_exposed shape0 dat mdat st mst s
          = (shape0 - (k + 1), dat + (k + 1) * st, mdat + (k + 1) * mst)"
        using step k(3) a1 by simp
      show "\<not> NpyMaskValue_IsExposed (mmem s (mdat + i * mst))" if "0 \<le> i \<and> i < k + 1" for i
        using hid that by simp
      show "NpyMaskValue_IsExposed (mmem s (mdat + (k + 1) * mst))" if "k + 1 < shape0"
        using k(5) that a1 by simp
    qed
  next
    case False
    then have "shrink_to_exposed shape0 dat mdat st mst s = (shape0, dat, mdat)"
      by (subst shrink_to_exposed.simps) auto
    with False "1.prems" show ?thesis by (intro exI[of _ 0]) auto
  qed
qed

lemma shrink_to_exposed_all_hidden:
  assumes "0 \<le> n"
    and "\<forall>i. 0 \<le> i \<and> i < n \<longrightarrow> \<not> NpyMaskValue_IsExposed (mmem s (mdat + i * mst))"
  shows "shrink_to_exposed n dat mdat st mst s = (0, dat + n * st, mdat + n * mst)"
proof -
  from shrink_to_exposed_spec[OF assms(1), of dat mdat st mst s] obtain k where
    k: "0 \<le> k" "k \<le> n"
      "shrink_to_exposed n dat mdat st mst s = (n - k, dat + k * st, mdat + k * mst)"
      "k < n \<longrightarrow> NpyMaskValue_IsExposed (mmem s (mdat + k * mst))"
    by blast
  have "k = n" using k(1,2,4) assms(2) by force
  with k(3) show ?thesis by simp
qed

lemma shrink_to_exposed_first:
  assumes "0 \<le> k" "k < n" "NpyMaskValue_IsExposed (mmem s (mdat + k * mst))"
    and "\<forall>i. 0 \<le> i \<and> i < k \<longrightarrow> \<not> NpyMaskValue_IsExposed (mmem s (mdat + i * mst))"
  shows "shrink_to_exposed n dat mdat st mst s = (n - k, dat + k * st, mdat + k * mst)"
proof -
  have "0 \<le> n" using assms by simp
  from shrink_to_exposed_spec[OF this, of dat mdat st mst s] obtain j where
    j: "0 \<le> j" "j \<le> n"
      "shrink_to_exposed n dat mdat st mst s = (n - j, dat + j * st, mdat + j * mst)"
      "\<forall>i. 0 \<le> i \<and> i < j \<longrightarrow> \<not> NpyMaskValue_IsExposed (mmem s (mdat + i * mst))"
      "j < n \<longrightarrow> NpyMaskValue_IsExposed (mmem s (mdat + j * mst))"
    by blast
  have "\<not> j < k" using j(1,5) assms(2,4) by force
  moreover have "\<not> k < j" using j(4) assms(1,3) by force
  ultimately have "j = k" by simp
  with j(3) show ?thesis by simp
qed

lemma check_nonreorderable_axes_one: "check_nonreorderable_axes (Suc 0) axis_flags = Inr ()"
  by (cases axis_flags) (auto simp: check_nonreorderable_axes_def)

lemma copy_first_and_shrink_error:
  "copy_first_and_shrink result operand op_view ndim axis_flags s = (Inl e, s') \<Longrightarrow>
   e = BroadcastError"
  by (auto simp: copy_first_and_shrink_def PyArray_AssignArray_def Let_def
      split: sum.splits if_splits)

lemma byte_offset_single_zero [simp]: "byte_offset strd [0] = 0"
  by (cases strd) (simp_all add: byte_offset_def)

lemma PyArray_InitializeReduceResult_one_dimension:
  assumes "maskna operand = Some m" and "dimensions operand = [n]"
  shows "PyArray_InitializeReduceResult result operand axis_flags reorderable True s
    = (case shrink_to_exposed n (data operand) (maskna_data m) (strides operand ! 0)
              (maskna_strides m ! 0) s of
         (shape0, dat, mdat) \<Rightarrow>
           if shape0 = 0 then (Inl AllMissingError, s)
           else copy_first_and_shrink result operand
                  (operand\<lparr>dimensions := [shape0], data := dat,
                           maskna := Some (m\<lparr>maskna_data := mdat\<rparr>)\<rparr>) (Suc 0) axis_flags s)"
  using assms
  by (simp add: PyArray_InitializeReduceResult_def Let_def PyArray_NDIM_def PyArray_HASMASKNA_def
      check_nonreorderable_axes_one PyArray_View_def split: prod.splits)

lemma index_space_one [simp]: "index_space [1] = [[0]]"
  by (simp add: upt_rec)

lemma copy_first_and_shrink_flagged_line:
  assumes "axis_flags ! 0" and "dimensions result = [1]" and "dimensions op_view = [d]"
  shows "copy_first_and_shrink result operand op_view (Suc 0) axis_flags s
    = (Inr (op_view\<lparr>dimensions := [d - 1], data := data op_view + strides op_view ! 0,
                     maskna := map_option
                       (\<lambda>m. m\<lparr>maskna_data := maskna_data m + maskna_strides m ! 0\<rparr>)
                       (maskna op_view)\<rparr>, 0),
       s\<lparr>dmem := (dmem s)(data result := dmem s (data op_view))\<rparr>)"
proof -
  have n: "nreduce_axes (Suc 0) axis_flags = Suc 0"
    using assms(1) by (simp add: nreduce_axes_def)
  have cp: "PyArray_AssignArray result (op_view\<lparr>dimensions := [1]\<rparr>) True s
      = Inr (s\<lparr>dmem := (dmem s)(data result := dmem s (data op_view))\<rparr>)"
    using assms(2)
    by (simp add: PyArray_AssignArray_def broadcast_shape_def Let_def element_address_def
        store_all_def)
  show ?thesis
    unfolding copy_first_and_shrink_def Let_def
    using assms by (simp add: n cp)
qed

text \<open>
  Claim C3, as amended. The operand has one dimension and a validity mask, and skipna is
  enabled. The initializer raises AllMissingError exactly when every element is hidden, and
  then leaves the memory as it was. Otherwise let \<open>k\<close> be the position of the first exposed
  element. When the operand's axis is the reduction axis (and the result has one cell), the
  seed at \<open>k\<close> is copied to the result and the view returned starts one element past it: its
  size is \<open>n - k - 1\<close>, its data origin and its mask origin are advanced by \<open>k + 1\<close> strides,
  and the skip count is 0.
\<close>

theorem first_element_initializer_one_dimension:
  assumes "maskna operand = Some m" and "dimensions operand = [n]" and "0 \<le> n"
  shows
    "(fst (PyArray_InitializeReduceResult result operand axis_flags reorderable True s)
        = Inl AllMissingError \<longleftrightarrow>
      (\<forall>i. 0 \<le> i \<and> i < n \<longrightarrow>
           \<not> NpyMaskValue_IsExposed (mmem s (maskna_data m + i * maskna_strides m ! 0)))) \<and>
     ((\<forall>i. 0 \<le> i \<and> i < n \<longrightarrow>
           \<not> NpyMaskValue_IsExposed (mmem s (maskna_data m + i * maskna_strides m ! 0))) \<longrightarrow>
      PyArray_InitializeReduceResult result operand axis_flags reorderable True s
        = (Inl AllMissingError, s)) \<and>
     (\<forall>k. 0 \<le> k \<and> k < n \<and>
          NpyMaskValue_IsExposed (mmem s (maskna_data m + k * maskna_strides m ! 0)) \<and>
          (\<forall>i. 0 \<le> i \<and> i < k \<longrightarrow>
             \<not> NpyMaskValue_IsExposed (mmem s (maskna_data m + i * maskna_strides m ! 0))) \<longrightarrow>
        (axis_flags ! 0 \<and> dimensions result = [1] \<longrightarrow>
           PyArray_InitializeReduceResult result operand axis_flags reorderable True s
             = (Inr (operand\<lparr>dimensions := [n - k - 1],
                             data := data operand + (k + 1) * strides operand ! 0,
                             maskna := Some (m\<lparr>maskna_data :=
                                maskna_data m + (k + 1) * maskna_strides m ! 0\<rparr>)\<rparr>, 0),
                s\<lparr>dmem := (dmem s)(data result :=
                      dmem s (data operand + k * strides operand ! 0))\<rparr>)))"
proof -
  define hidden where "hidden = (\<lambda>i. \<not> NpyMaskValue_IsExposed
      (mmem s (maskna_data m + i * maskna_strides m ! 0)))"
  define init where "init = PyArray_InitializeReduceResult result operand axis_flags reorderable True s"
  note unfold = PyArray_InitializeReduceResult_one_dimension[OF assms(1,2), of result axis_flags
      reorderable s, folded init_def]
  have all_hidden: "init = (Inl AllMissingError, s)" if "\<forall>i. 0 \<le> i \<and> i < n \<longrightarrow> hidden i"
  proof -
    have "shrink_to_exposed n (data operand) (maskna_data m) (strides operand ! 0)
        (maskna_strides m ! 0) s
      = (0, data operand + n * strides operand ! 0, maskna_data m + n * maskna_strides m ! 0)"
      using that unfolding hidden_def by (intro shrink_to_exposed_all_hidden assms(3)) simp
    then show ?thesis unfolding unfold by simp
  qed
  have first: "init = copy_first_and_shrink result operand
        (operand\<lparr>dimensions := [n - k], data := data operand + k * strides operand ! 0,
                 maskna := Some (m\<lparr>maskna_data := maskna_data m + k * maskna_strides m ! 0\<rparr>)\<rparr>)
        (Suc 0) axis_flags s"
    if "0 \<le> k" "k < n" "\<not> hidden k" "\<forall>i. 0 \<le> i \<and> i < k \<longrightarrow> hidden i" for k
  proof -
    have "shrink_to_exposed n (data operand) (maskna_data m) (strides operand ! 0)
        (maskna_strides m ! 0) s
      = (n - k, data operand + k * strides operand ! 0, maskna_data m + k * maskna_strides m ! 0)"
      using that unfolding hidden_def by (intro shrink_to_exposed_first) simp_all
    then show ?thesis unfolding unfold using that(2) by simp
  qed
  have ex_first: "\<exists>k. 0 \<le> k \<and> k < n \<and> \<not> hidden k \<and> (\<forall>i. 0 \<le> i \<and> i < k \<longrightarrow> hidden i)"
    if "\<not> (\<forall>i. 0 \<le> i \<and> i < n \<longrightarrow> hidden i)"
  proof -
    from shrink_to_exposed_spec[OF assms(3), of "data operand" "maskna_data m"
        "strides operand ! 0" "maskna_strides m ! 0" s]
    obtain k where k: "0 \<le> k" "k \<le> n" "\<forall>i. 0 \<le> i \<and> i < k \<longrightarrow> hidden i"
      "k < n \<longrightarrow> \<not> hidden k"
      unfolding hidden_def by blast
    have "k \<noteq> n" using that k(3) by blast
    with k show ?thesis by (intro exI[of _ k]) simp
  qed
  have iff: "fst init = Inl AllMissingError \<longleftrightarrow> (\<forall>i. 0 \<le> i \<and> i < n \<longrightarrow> hidden i)"
  proof
    assume a: "fst init = Inl AllMissingError"
    show "\<forall>i. 0 \<le> i \<and> i < n \<longrightarrow> hidden i"
    proof (rule ccontr)
      assume "\<not> (\<forall>i. 0 \<le> i \<and> i < n \<longrightarrow> hidden i)"
      from ex_first[OF this] obtain k where
        k: "0 \<le> k" "k < n" "\<not> hidden k" "\<forall>i. 0 \<le> i \<and> i < k \<longrightarrow> hidden i"
        by blast
      from a first[OF k] obtain s' where "copy_first_and_shrink result operand
        (operand\<lparr>dimensions := [n - k], data := data operand + k * strides operand ! 0,
                 maskna := Some (m\<lparr>maskna_data := maskna_data m + k * maskna_strides m ! 0\<rparr>)\<rparr>)
        (Suc 0) axis_flags s = (Inl AllMissingError, s')"
        by (metis prod.collapse)
      from copy_first_and_shrink_error[OF this] show False by simp
    qed
  next
    assume "\<forall>i. 0 \<le> i \<and> i < n \<longrightarrow> hidden i"
    from all_hidden[OF this] show "fst init = Inl AllMissingError" by simp
  qed
  have flagged: "init = (Inr (operand\<lparr>dimensions := [n - k - 1],
                             data := data operand + (k + 1) * strides operand ! 0,
                             maskna := Some (m\<lparr>maskna_data :=
                                maskna_data m + (k + 1) * maskna_strides m ! 0\<rparr>)\<rparr>, 0),
                s\<lparr>dmem := (dmem s)(data result :=
                      dmem s (data operand + k * strides operand ! 0))\<rparr>)"
    if k: "0 \<le> k" "k < n" "\<not> hidden k" "\<forall>i. 0 \<le> i \<and> i < k \<longrightarrow> hidden i"
      and fl: "axis_flags ! 0" "dimensions result = [1]" for k
    unfolding first[OF k]
    by (subst copy_first_and_shrink_flagged_line[OF fl, where d = "n - k"])
       (simp_all add: algebra_simps)
  show ?thesis
    unfolding init_def[symmetric]
  proof (intro conjI allI impI)
    show "fst init = Inl AllMissingError \<longleftrightarrow>
      (\<forall>i. 0 \<le> i \<and> i < n \<longrightarrow>
           \<not> NpyMaskValue_IsExposed (mmem s (maskna_data m + i * maskna_strides m ! 0)))"
      using iff unfolding hidden_def .
  next
    assume "\<forall>i. 0 \<le> i \<and> i < n \<longrightarrow>
           \<not> NpyMaskValue_IsExposed (mmem s (maskna_data m + i * maskna_strides m ! 0))"
    then show "init = (Inl AllMissingError, s)"
      using all_hidden unfolding hidden_def by blast
  next
    fix k
    assume k: "0 \<le> k \<and> k < n \<and>
          NpyMaskValue_IsExposed (mmem s (maskna_data m + k * maskna_strides m ! 0)) \<and>
          (\<forall>i. 0 \<le> i \<and> i < k \<longrightarrow>
             \<not> NpyMaskValue_IsExposed (mmem s (maskna_data m + i * maskna_strides m ! 0)))"
      and fl: "axis_flags ! 0 \<and> dimensions result = [1]"
    have k': "0 \<le> k" "k < n" "\<not> hidden k" "\<forall>i. 0 \<le> i \<and> i < k \<longrightarrow> hidden i"
      using k unfolding hidden_def by simp_all
    show "init = (Inr (operand\<lparr>dimensions := [n - k - 1],
                             data := data operand + (k + 1) * strides operand ! 0,
                             maskna := Some (m\<lparr>maskna_data :=
                                maskna_data m + (k + 1) * maskna_strides m ! 0\<rparr>)\<rparr>, 0),
                s\<lparr>dmem := (dmem s)(data result :=
                      dmem s (data operand + k * strides operand ! 0))\<rparr>)"
      by (rule flagged[OF k' fl[THEN conjunct1] fl[THEN conjunct2]])
  qed
qed


text \<open>
  The theorem leaves out the operand whose axis is not flagged and whose first element is
  hidden. There the operand is shrunk to its first exposed element before the copy, while the
  result keeps the operand's full shape: on \<open>[NA, 2, 3]\<close> with a result of three cells the copy
  of the two remaining elements into the three cells fails.
\<close>

lemma unflagged_line_after_hidden_element:
  "\<not> NpyMaskValue_IsExposed (mmem mem_na (maskna_data line_mask)) \<and>
   dimensions res_line = [3] \<and>
   fst (PyArray_InitializeReduceResult res_line arr_line [False] True True mem_na)
     = Inl BroadcastError"
  by code_simp

text \<open>
  Counterexample to claim C3 as stated: the operand \<open>[1, 2, 3]\<close>, every element exposed, with
  its one axis not flagged. The first exposed element is at the start; the view returned does
  not start one element past it: it is the empty view at the operand's own origin.
\<close>

theorem unflagged_line_view_is_empty:
  "PyArray_HASMASKNA arr_line \<and> PyArray_NDIM arr_line = 1 \<and>
   NpyMaskValue_IsExposed (mmem mem_2x3_exposed (maskna_data line_mask)) \<and>
   fst (PyArray_InitializeReduceResult res_line arr_line [False] True True mem_2x3_exposed)
     = Inr (arr_line\<lparr>dimensions := [0]\<rparr>, 0) \<and>
   data (arr_line\<lparr>dimensions := [0]\<rparr>) = data arr_line"
  by code_simp

theorem first_element_initializer_one_dimension_witness:
  "maskna arr_line = Some line_mask \<and> dimensions arr_line = [3] \<and>
   NpyMaskValue_IsExposed (mmem mem_na (maskna_data line_mask + 1 * maskna_strides line_mask ! 0)) \<and>
   \<not> NpyMaskValue_IsExposed (mmem mem_na (maskna_data line_mask + 0 * maskna_strides line_mask ! 0)) \<and>
   PyArray_InitializeReduceResult res_one arr_line [True] True True mem_na
     = (Inr (arr_line\<lparr>dimensions := [3 - 1 - 1],
                      data := data arr_line + (1 + 1) * strides arr_line ! 0,
                      maskna := Some (line_mask\<lparr>maskna_data :=
                         maskna_data line_mask + (1 + 1) * maskna_strides line_mask ! 0\<rparr>)\<rparr>, 0),
        mem_na\<lparr>dmem := (dmem mem_na)(data res_one :=
              dmem mem_na (data arr_line + 1 * strides arr_line ! 0))\<rparr>) \<and>
   dmem mem_na (data arr_line + 1 * strides arr_line ! 0) = 2"
proof -
  have h1: "maskna arr_line = Some line_mask" and h2: "dimensions arr_line = [3]"
    by (simp_all add: arr_line_def)
  have h3: "(0::int) \<le> 3" by simp
  have e1: "NpyMaskValue_IsExposed
      (mmem mem_na (maskna_data line_mask + 1 * maskna_strides line_mask ! 0))"
    and e0: "\<not> NpyMaskValue_IsExposed
      (mmem mem_na (maskna_data line_mask + 0 * maskna_strides line_mask ! 0))"
    and v: "dmem mem_na (data arr_line + 1 * strides arr_line ! 0) = 2"
    by code_simp+
  have hid: "\<forall>i. 0 \<le> i \<and> i < (1::int) \<longrightarrow> \<not> NpyMaskValue_IsExposed
      (mmem mem_na (maskna_data line_mask + i * maskna_strides line_mask ! 0))"
  proof (intro allI impI)
    fix i :: int assume "0 \<le> i \<and> i < 1"
    then have "i = 0" by simp
    with e0 show "\<not> NpyMaskValue_IsExposed
      (mmem mem_na (maskna_data line_mask + i * maskna_strides line_mask ! 0))" by simp
  qed
  have fl: "[True] ! 0 \<and> dimensions res_one = [1]" by (simp add: res_one_def)
  note T = first_element_initializer_one_dimension[OF h1 h2 h3, of res_one "[True]" True mem_na]
  from T[THEN conjunct2, THEN conjunct2, rule_format, of 1] e1 hid fl
  have "PyArray_InitializeReduceResult res_one arr_line [True] True True mem_na
     = (Inr (arr_line\<lparr>dimensions := [3 - 1 - 1],
                      data := data arr_line + (1 + 1) * strides arr_line ! 0,
                      maskna := Some (line_mask\<lparr>maskna_data :=
                         maskna_data line_mask + (1 + 1) * maskna_strides line_mask ! 0\<rparr>)\<rparr>, 0),
        mem_na\<lparr>dmem := (dmem mem_na)(data res_one :=
              dmem mem_na (data arr_line + 1 * strides arr_line ! 0))\<rparr>)"
    by simp
  with h1 h2 e1 e0 v show ?thesis by simp
qed

section \<open>The element counter\<close>

lemma count_inner_frame:
  "mmem (count_inner n od rd os rs s) = mmem s \<and> dbrk (count_inner n od rd os rs s) = dbrk s \<and>
   mbrk (count_inner n od rd os rs s) = mbrk s"
  by (induction n arbitrary: od rd s) simp_all

lemma count_inner_dmem:
  "dmem (count_inner n od rd os rs s) a
     = dmem s a + (\<Sum>i<n. if rd + int i * rs = a then mmem s (od + int i * os) else 0)"
proof (induction n arbitrary: od rd s)
  case 0
  show ?case by simp
next
  case (Suc n)
  define s1 where "s1 = s\<lparr>dmem := (dmem s)(rd := dmem s rd + mmem s od)\<rparr>"
  have m1: "mmem s1 = mmem s" by (simp add: s1_def)
  have "dmem (count_inner (Suc n) od rd os rs s) a
      = dmem s1 a + (\<Sum>i<n. if rd + rs + int i * rs = a then mmem s1 (od + os + int i * os) else 0)"
    using Suc[of "od + os" "rd + rs" s1] by (simp add: s1_def)
  also have "dmem s1 a = dmem s a + (if rd = a then mmem s od else 0)"
    by (simp add: s1_def)
  also have "(\<Sum>i<n. if rd + rs + int i * rs = a then mmem s1 (od + os + int i * os) else 0)
      = (\<Sum>i<n. if rd + int (Suc i) * rs = a then mmem s (od + int (Suc i) * os) else 0)"
    by (intro sum.cong refl) (simp add: m1 algebra_simps)
  finally have "dmem (count_inner (Suc n) od rd os rs s) a
      = dmem s a + ((if rd = a then mmem s od else 0) +
          (\<Sum>i<n. if rd + int (Suc i) * rs = a then mmem s (od + int (Suc i) * os) else 0))"
    by (simp only: add.assoc)
  also have "(if rd = a then mmem s od else 0) +
          (\<Sum>i<n. if rd + int (Suc i) * rs = a then mmem s (od + int (Suc i) * os) else 0)
      = (\<Sum>i<Suc n. if rd + int i * rs = a then mmem s (od + int i * os) else 0)"
    by (subst sum.lessThan_Suc_shift) simp
  finally show ?case .
qed

lemma raw_outer_fold:
  "mmem (fold (\<lambda>coord s'. count_inner n (od0 + fo coord) (rd0 + fr coord) os rs s') coords s)
     = mmem s \<and>
   dmem (fold (\<lambda>coord s'. count_inner n (od0 + fo coord) (rd0 + fr coord) os rs s') coords s) a
     = dmem s a + (\<Sum>coord\<leftarrow>coords. \<Sum>i<n.
          if rd0 + fr coord + int i * rs = a then mmem s (od0 + fo coord + int i * os) else 0)"
proof (induction coords arbitrary: s)
  case Nil
  show ?case by simp
next
  case (Cons c coords)
  define s1 where "s1 = count_inner n (od0 + fo c) (rd0 + fr c) os rs s"
  have m1: "mmem s1 = mmem s" by (simp add: s1_def count_inner_frame)
  have d1: "dmem s1 a = dmem s a + (\<Sum>i<n.
          if rd0 + fr c + int i * rs = a then mmem s (od0 + fo c + int i * os) else 0)"
    by (simp add: s1_def count_inner_dmem)
  from Cons[of s1] show ?case
    by (simp add: s1_def[symmetric] m1 d1 cong: if_cong)
qed

lemma sum_list_swap_index:
  "(\<Sum>c\<leftarrow>cs. \<Sum>i<n. h i c) = (\<Sum>i<n. \<Sum>c\<leftarrow>cs. (h i c :: int))"
  by (induction cs) (simp_all add: sum.distrib)

lemma sum_lessThan_sum_list: "(\<Sum>i<n. f i) = (\<Sum>i\<leftarrow>[0..<n]. (f i :: int))"
  by (simp add: sum_list_distinct_conv_sum_set atLeast0LessThan)

lemma sum_list_map_concat:
  "(\<Sum>x\<leftarrow>concat xss. (g x :: int)) = (\<Sum>xs\<leftarrow>xss. \<Sum>x\<leftarrow>xs. g x)"
  by (induction xss) simp_all

lemma sum_list_index_space_Cons:
  "(\<Sum>idx\<leftarrow>index_space (d # shape). (g idx :: int))
     = (\<Sum>c\<leftarrow>index_space shape. \<Sum>i<nat d. g (int i # c))"
proof -
  have "(\<Sum>idx\<leftarrow>index_space (d # shape). g idx)
      = (\<Sum>i\<leftarrow>[0..<nat d]. \<Sum>c\<leftarrow>index_space shape. g (int i # c))"
    by (simp add: sum_list_map_concat comp_def)
  also have "\<dots> = (\<Sum>i<nat d. \<Sum>c\<leftarrow>index_space shape. g (int i # c))"
    by (simp add: sum_lessThan_sum_list)
  also have "\<dots> = (\<Sum>c\<leftarrow>index_space shape. \<Sum>i<nat d. g (int i # c))"
    by (simp add: sum_list_swap_index)
  finally show ?thesis .
qed

lemma raw_iter_two_spec:
  assumes "shape_it = d # shape" "ostr = o0 # otl" "rstr = r0 # rtl"
  shows "mmem (raw_iter_two shape_it od0 ostr rd0 rstr s) = mmem s \<and>
     dmem (raw_iter_two shape_it od0 ostr rd0 rstr s) a
       = dmem s a + (\<Sum>idx\<leftarrow>index_space shape_it.
            if rd0 + byte_offset rstr idx = a then mmem s (od0 + byte_offset ostr idx) else 0)"
proof -
  have run: "raw_iter_two shape_it od0 ostr rd0 rstr s
      = fold (\<lambda>coord s'. count_inner (nat d) (od0 + byte_offset otl coord)
                (rd0 + byte_offset rtl coord) o0 r0 s') (index_space shape) s"
    by (simp add: raw_iter_two_def assms)
  have "(\<Sum>idx\<leftarrow>index_space (d # shape).
            if rd0 + byte_offset (r0 # rtl) idx = a then mmem s (od0 + byte_offset (o0 # otl) idx)
            else 0)
      = (\<Sum>c\<leftarrow>index_space shape. \<Sum>i<nat d.
            if rd0 + byte_offset (r0 # rtl) (int i # c) = a
            then mmem s (od0 + byte_offset (o0 # otl) (int i # c)) else 0)"
    by (rule sum_list_index_space_Cons)
  also have "\<dots> = (\<Sum>c\<leftarrow>index_space shape. \<Sum>i<nat d.
            if rd0 + byte_offset rtl c + int i * r0 = a
            then mmem s (od0 + byte_offset otl c + int i * o0) else 0)"
    by (simp add: algebra_simps cong: if_cong)
  finally have canon: "(\<Sum>idx\<leftarrow>index_space shape_it.
            if rd0 + byte_offset rstr idx = a then mmem s (od0 + byte_offset ostr idx) else 0)
      = (\<Sum>c\<leftarrow>index_space shape. \<Sum>i<nat d.
            if rd0 + byte_offset rtl c + int i * r0 = a
            then mmem s (od0 + byte_offset otl c + int i * o0) else 0)"
    unfolding assms .
  show ?thesis
    unfolding run canon by (rule raw_outer_fold)
qed

lemma store_all_const:
  "store_all (map (\<lambda>x. (f x, v)) xs) m a = (if a \<in> f ` set xs then v else m a)"
proof (induction xs arbitrary: m)
  case Nil
  show ?case by (simp add: store_all_def)
next
  case (Cons x xs)
  have "store_all (map (\<lambda>x. (f x, v)) (x # xs)) m a
      = store_all (map (\<lambda>x. (f x, v)) xs) (m(f x := v)) a"
    by (simp add: store_all_def)
  then show ?case using Cons[of "m(f x := v)"] by auto
qed

lemma PyArray_AssignZero_spec:
  "mmem (PyArray_AssignZero arr s) = mmem s \<and>
   dmem (PyArray_AssignZero arr s) a
     = (if a \<in> element_address arr ` set (index_space (dimensions arr)) then 0 else dmem s a)"
  by (simp add: PyArray_AssignZero_def store_all_const)

lemma allocate_reduce_result_strides:
  assumes "allocate_reduce_result arr axis_flags dtype subok s = (res, s')"
  shows "length (strides res) = PyArray_NDIM arr"
    and "\<forall>i<PyArray_NDIM arr. axis_flags ! i \<longrightarrow> strides res ! i = 0"
proof -
  define n where "n = PyArray_NDIM arr"
  define dt where "dt = (case dtype of None \<Rightarrow> descr arr | Some d \<Rightarrow> d)"
  define perm where "perm = PyArray_CreateSortedStridePerm n (dimensions arr) (strides arr)"
  have perm: "distinct perm" "set perm = {0..<n}" "length perm = n"
    unfolding perm_def by (rule strideperm_props)+
  obtain strd shape stride where
    run: "build_strides (rev perm) axis_flags (replicate n 0, dimensions arr, elsize dt)
            = (strd, shape, stride)"
    by (metis prod_cases3)
  have res: "res = \<lparr>data = dbrk s, dimensions = shape, strides = strd, descr = dt, maskna = None\<rparr>"
    using assms run[unfolded perm_def dt_def n_def]
    by (simp add: allocate_reduce_result_def Let_def PyArray_NewFromDescr_def dt_def)
  have B: "length strd = length (replicate n (0::int)) \<and> length shape = length (dimensions arr) \<and>
     stride = elsize dt * prod_list (map (axis_extent axis_flags (dimensions arr)) (rev perm)) \<and>
     (\<forall>i<length (dimensions arr). shape ! i =
         (if i \<in> set (rev perm) \<and> axis_flags ! i then 1 else dimensions arr ! i)) \<and>
     (\<forall>i<length (replicate n (0::int)). i \<notin> set (rev perm) \<longrightarrow> strd ! i = replicate n 0 ! i) \<and>
     (\<forall>k<length (rev perm). strd ! (rev perm ! k) =
        (if axis_flags ! (rev perm ! k) then 0
         else elsize dt * prod_list (map (axis_extent axis_flags (dimensions arr)) (take k (rev perm)))))"
    by (rule build_strides_spec[OF _ _ _ run]) (use perm in \<open>auto simp: n_def PyArray_NDIM_def\<close>)
  show "length (strides res) = PyArray_NDIM arr"
    using B by (simp add: res n_def)
  show "\<forall>i<PyArray_NDIM arr. axis_flags ! i \<longrightarrow> strides res ! i = 0"
  proof (intro allI impI)
    fix i assume i: "i < PyArray_NDIM arr" "axis_flags ! i"
    then have "i \<in> set (rev perm)" using perm by (simp add: n_def)
    then obtain k where k: "k < length (rev perm)" "rev perm ! k = i"
      unfolding in_set_conv_nth by blast
    with B i(2) have "strd ! i = 0" by force
    then show "strides res ! i = 0" by (simp add: res)
  qed
qed

lemma reduced_shape_zip:
  "length axis_flags = length shape \<Longrightarrow>
   reduced_shape axis_flags shape = map2 (\<lambda>f d. if f then 1 else d) axis_flags shape"
  by (intro nth_equalityI) (simp_all add: reduced_shape_nth)

lemma index_space_reduce_index:
  "length fl = length shape \<Longrightarrow> idx \<in> set (index_space shape) \<Longrightarrow>
   map2 (\<lambda>f i. if f then 0 else i) fl idx
     \<in> set (index_space (map2 (\<lambda>f d. if f then 1 else d) fl shape))"
proof (induction shape arbitrary: fl idx)
  case Nil
  then show ?case by simp
next
  case (Cons d shape)
  then obtain f fs where fl: "fl = f # fs" "length fs = length shape" by (cases fl) auto
  from Cons.prems(2) obtain i rest where
    idx: "idx = int i # rest" "i < nat d" "rest \<in> set (index_space shape)"
    by auto
  have rest: "map2 (\<lambda>f i. if f then 0 else i) fs rest
      \<in> set (index_space (map2 (\<lambda>f d. if f then 1 else d) fs shape))"
    using Cons.IH[OF fl(2) idx(3)] .
  show ?case
  proof (cases f)
    case True
    have "(0::int) = int 0" by simp
    with rest True show ?thesis unfolding fl idx(1) by (auto simp: image_iff)
  next
    case False
    with rest idx(2) show ?thesis unfolding fl idx(1) by (auto simp: image_iff)
  qed
qed

lemma byte_offset_reduce_index:
  "length fl = length idx \<Longrightarrow> \<forall>(f, st)\<in>set (zip fl strd). f \<longrightarrow> st = 0 \<Longrightarrow>
   byte_offset strd (map2 (\<lambda>f i. if f then 0 else i) fl idx) = byte_offset strd idx"
proof (induction fl arbitrary: strd idx)
  case Nil
  then show ?case by simp
next
  case (Cons f fs)
  show ?case
  proof (cases strd)
    case Nil
    then show ?thesis by simp
  next
    case strd: (Cons st strd')
    show ?thesis
    proof (cases idx)
      case Nil
      then show ?thesis by simp
    next
      case idx: (Cons i idx')
      have "byte_offset strd' (map2 (\<lambda>f i. if f then 0 else i) fs idx') = byte_offset strd' idx'"
        using Cons.prems strd idx by (intro Cons.IH) auto
      moreover have "f \<Longrightarrow> st = 0" using Cons.prems strd by auto
      ultimately show ?thesis unfolding strd idx by auto
    qed
  qed
qed

lemma operand_cell_in_result_cells:
  assumes "length axis_flags = length shape"
    and "\<forall>i<length shape. axis_flags ! i \<longrightarrow> strd ! i = 0"
    and "idx \<in> set (index_space shape)"
  shows "base + byte_offset strd idx
      \<in> (\<lambda>ridx. base + byte_offset strd ridx) ` set (index_space (reduced_shape axis_flags shape))"
proof -
  define ridx where "ridx = map2 (\<lambda>f i. if f then 0 else i) axis_flags idx"
  have "ridx \<in> set (index_space (reduced_shape axis_flags shape))"
    unfolding ridx_def reduced_shape_zip[OF assms(1)]
    using assms(1,3) by (rule index_space_reduce_index)
  have "\<forall>(f, st)\<in>set (zip axis_flags strd). f \<longrightarrow> st = 0"
  proof (clarify)
    fix f st assume "(f, st) \<in> set (zip axis_flags strd)" f
    then obtain i where "i < length axis_flags" "i < length strd" "axis_flags ! i" "strd ! i = st"
      by (auto simp: in_set_zip)
    with assms(1,2) show "st = 0" by auto
  qed
  moreover have "length axis_flags = length idx"
    using index_space_member[OF assms(3)] assms(1) by simp
  ultimately have "byte_offset strd ridx = byte_offset strd idx"
    unfolding ridx_def by (intro byte_offset_reduce_index)
  with \<open>ridx \<in> set (index_space (reduced_shape axis_flags shape))\<close> show ?thesis
    by (intro image_eqI[where x = ridx]) simp_all
qed

lemma sum_mask_bytes_count:
  assumes "\<forall>idx\<in>set idxs. mem (maddr idx) = 0 \<or> mem (maddr idx) = (1::int)"
  shows "(\<Sum>idx\<leftarrow>idxs. if cell idx = a then mem (maddr idx) else 0)
     = int (length (filter (\<lambda>idx. NpyMaskValue_IsExposed (mem (maddr idx)) \<and> cell idx = a) idxs))"
  using assms
proof (induction idxs)
  case Nil
  show ?case by simp
next
  case (Cons x idxs)
  have x: "mem (maddr x) = 0 \<or> mem (maddr x) = 1" using Cons.prems by simp
  have "(\<Sum>idx\<leftarrow>idxs. if cell idx = a then mem (maddr idx) else 0)
     = int (length (filter (\<lambda>idx. NpyMaskValue_IsExposed (mem (maddr idx)) \<and> cell idx = a) idxs))"
    using Cons by simp
  then show ?case using x by (auto simp: NpyMaskValue_IsExposed_def)
qed

lemma sum_cells_count:
  assumes "finite A" and "f ` set xs \<subseteq> A"
  shows "(\<Sum>a\<in>A. int (length (filter (\<lambda>x. P x \<and> f x = a) xs))) = int (length (filter P xs))"
  using assms(2)
proof (induction xs)
  case Nil
  show ?case by simp
next
  case (Cons x xs)
  have fx: "f x \<in> A" using Cons.prems by simp
  have "(\<Sum>a\<in>A. int (length (filter (\<lambda>x. P x \<and> f x = a) (x # xs))))
      = (\<Sum>a\<in>A. (if f x = a then (if P x then 1 else 0) else 0)
                + int (length (filter (\<lambda>x. P x \<and> f x = a) xs)))"
    by (intro sum.cong refl) simp
  also have "\<dots> = (\<Sum>a\<in>A. if f x = a then (if P x then 1 else 0) else 0)
                + (\<Sum>a\<in>A. int (length (filter (\<lambda>x. P x \<and> f x = a) xs)))"
    by (rule sum.distrib)
  also have "(\<Sum>a\<in>A. if f x = a then (if P x then 1 else 0) else 0) = (if P x then 1 else (0::int))"
    using assms(1) fx by (simp add: sum.delta)
  also have "(\<Sum>a\<in>A. int (length (filter (\<lambda>x. P x \<and> f x = a) xs))) = int (length (filter P xs))"
    using Cons by simp
  finally show ?case by simp
qed

lemma fold_count_product:
  "fold (\<lambda>idim cnt. if axis_flags ! idim then cnt * shape ! idim else cnt) idims (c::int)
     = c * prod_list (map (\<lambda>idim. if axis_flags ! idim then shape ! idim else 1) idims)"
  by (induction idims arbitrary: c) (simp_all add: algebra_simps)

lemma count_pass_spec:
  assumes "length mstr = length shape" and "length rstr = length shape"
    and "PyArray_PrepareTwoRawArrayIter (length shape) shape mstr rstr = (shape_it, ostr_it, rstr_it)"
  shows "mmem (raw_iter_two shape_it od0 ostr_it rd0 rstr_it s) = mmem s \<and>
     dmem (raw_iter_two shape_it od0 ostr_it rd0 rstr_it s) a
       = dmem s a + (\<Sum>idx\<leftarrow>index_space shape.
            if rd0 + byte_offset rstr idx = a then mmem s (od0 + byte_offset mstr idx) else 0)"
proof (cases shape)
  case Nil
  with assms have p: "shape_it = [1]" "ostr_it = [0]" "rstr_it = [0]" "mstr = []" "rstr = []"
    by (auto simp: PyArray_PrepareTwoRawArrayIter_def)
  from raw_iter_two_spec[OF p(1) p(2) p(3), of od0 rd0 s a]
  show ?thesis by (simp add: p Nil cong: if_cong)
next
  case (Cons d shape')
  with assms have p: "shape_it = d # shape'" "ostr_it = mstr" "rstr_it = rstr"
    by (auto simp: PyArray_PrepareTwoRawArrayIter_def)
  from assms(1,2) Cons obtain o0 otl r0 rtl where l: "mstr = o0 # otl" "rstr = r0 # rtl"
    by (cases mstr; cases rstr) auto
  from raw_iter_two_spec[OF p(1) l[folded p(2,3)], of od0 rd0 s a]
  show ?thesis unfolding p Cons .
qed

lemma PyArray_CountReduceItems_masked:
  assumes flags: "length axis_flags = PyArray_NDIM operand"
    and m: "maskna operand = Some m" and nf: "\<not> PyArray_HASFIELDS operand"
    and bt: "type_num (maskna_dtype m) = NPY_BOOL"
    and lm: "length (maskna_strides m) = PyArray_NDIM operand"
    and bytes: "\<forall>idx\<in>set (index_space (dimensions operand)).
        mmem s (mask_address m idx) = 0 \<or> mmem s (mask_address m idx) = 1"
    and alloc: "allocate_reduce_result operand axis_flags (Some intp_descr) False s = (result, s1)"
  shows "\<exists>s'. PyArray_CountReduceItems operand axis_flags True keepdims s
           = (Inr (CountArray (if keepdims then result
                               else PyArray_RemoveAxesInPlace result axis_flags)), s') \<and>
         mmem s' = mmem s \<and>
         (\<forall>a. dmem s' a
            = (if a \<in> element_address result ` set (index_space (dimensions result)) then 0
               else dmem s a)
              + int (length (filter
                   (\<lambda>idx. NpyMaskValue_IsExposed (mmem s (mask_address m idx)) \<and>
                          element_address result idx = a)
                   (index_space (dimensions operand))))) \<and>
         (\<Sum>a\<in>element_address result ` set (index_space (dimensions result)). dmem s' a)
           = int (length (filter (\<lambda>idx. NpyMaskValue_IsExposed (mmem s (mask_address m idx)))
                           (index_space (dimensions operand))))"
proof -
  define n where "n = PyArray_NDIM operand"
  have n: "n = length (dimensions operand)" by (simp add: n_def PyArray_NDIM_def)
  have cr: "PyArray_CreateReduceResult operand None (Some intp_descr) axis_flags False keepdims
      False s = Inr (result, s1)"
    using alloc by (simp add: PyArray_CreateReduceResult_def)
  have fr: "dmem s1 = dmem s" "mmem s1 = mmem s"
    using allocate_reduce_result_frame[OF alloc] by simp_all
  have dims: "dimensions result = reduced_shape axis_flags (dimensions operand)"
    using alloc by (rule allocate_reduce_result_dimensions)
  have ls: "length (strides result) = n"
    and zs: "\<forall>i<n. axis_flags ! i \<longrightarrow> strides result ! i = 0"
    using allocate_reduce_result_strides[OF alloc] by (simp_all add: n_def)
  have rs: "map (\<lambda>idim. if axis_flags ! idim then 0 else strides result ! idim) [0..<n]
      = strides result"
    using ls zs by (intro nth_equalityI) auto
  define s2 where "s2 = PyArray_AssignZero result s1"
  define cells where "cells = element_address result ` set (index_space (dimensions result))"
  have z: "mmem s2 = mmem s" "\<And>a. dmem s2 a = (if a \<in> cells then 0 else dmem s a)"
    unfolding s2_def cells_def using PyArray_AssignZero_spec[of result s1] fr by simp_all
  obtain shape_it ostr_it rstr_it where
    prep: "PyArray_PrepareTwoRawArrayIter (length (dimensions operand)) (dimensions operand)
             (maskna_strides m) (strides result) = (shape_it, ostr_it, rstr_it)"
    by (metis prod_cases3)
  define s3 where "s3 = raw_iter_two shape_it (maskna_data m) ostr_it (data result) rstr_it s2"
  have pass: "mmem s3 = mmem s2"
    "\<And>a. dmem s3 a = dmem s2 a + (\<Sum>idx\<leftarrow>index_space (dimensions operand).
            if data result + byte_offset (strides result) idx = a
            then mmem s2 (maskna_data m + byte_offset (maskna_strides m) idx) else 0)"
    unfolding s3_def
    using count_pass_spec[OF _ _ prep, of "maskna_data m" "data result" s2] lm ls
    by (simp_all add: n n_def[symmetric])
  have run: "PyArray_CountReduceItems operand axis_flags True keepdims s
      = (Inr (CountArray (if keepdims then result
                          else PyArray_RemoveAxesInPlace result axis_flags)), s3)"
    using m nf bt
    by (simp add: PyArray_CountReduceItems_def Let_def PyArray_HASMASKNA_def cr
        n_def[symmetric] rs prep[folded n] s2_def[symmetric] s3_def[symmetric])
  have cnt: "dmem s3 a = (if a \<in> cells then 0 else dmem s a)
      + int (length (filter (\<lambda>idx. NpyMaskValue_IsExposed (mmem s (mask_address m idx)) \<and>
                                   element_address result idx = a)
                      (index_space (dimensions operand))))" for a
  proof -
    have "(\<Sum>idx\<leftarrow>index_space (dimensions operand).
            if element_address result idx = a then mmem s (mask_address m idx) else 0)
        = int (length (filter (\<lambda>idx. NpyMaskValue_IsExposed (mmem s (mask_address m idx)) \<and>
                                   element_address result idx = a)
                      (index_space (dimensions operand))))"
      using bytes by (rule sum_mask_bytes_count)
    then show ?thesis
      using pass(2)[of a] z by (simp add: element_address_def mask_address_def cong: if_cong)
  qed
  have sub: "element_address result ` set (index_space (dimensions operand)) \<subseteq> cells"
  proof
    fix a assume "a \<in> element_address result ` set (index_space (dimensions operand))"
    then obtain idx where idx: "idx \<in> set (index_space (dimensions operand))"
      "a = element_address result idx" by blast
    have "data result + byte_offset (strides result) idx
      \<in> (\<lambda>ridx. data result + byte_offset (strides result) ridx) `
          set (index_space (reduced_shape axis_flags (dimensions operand)))"
      using flags zs idx(1)
      by (intro operand_cell_in_result_cells) (simp_all add: n PyArray_NDIM_def)
    then show "a \<in> cells"
      unfolding cells_def dims idx(2) element_address_def .
  qed
  have total: "(\<Sum>a\<in>cells. dmem s3 a)
      = int (length (filter (\<lambda>idx. NpyMaskValue_IsExposed (mmem s (mask_address m idx)))
                           (index_space (dimensions operand))))"
  proof -
    have "(\<Sum>a\<in>cells. dmem s3 a)
        = (\<Sum>a\<in>cells. int (length (filter
              (\<lambda>idx. NpyMaskValue_IsExposed (mmem s (mask_address m idx)) \<and>
                     element_address result idx = a)
              (index_space (dimensions operand)))))"
      by (intro sum.cong refl) (simp add: cnt)
    also have "\<dots> = int (length (filter (\<lambda>idx. NpyMaskValue_IsExposed (mmem s (mask_address m idx)))
                           (index_space (dimensions operand))))"
      by (rule sum_cells_count) (use sub in \<open>simp_all add: cells_def\<close>)
    finally show ?thesis .
  qed
  show ?thesis
    using run pass(1) z(1) cnt total unfolding cells_def by (intro exI[of _ s3]) simp
qed

text \<open>
  Claim C9. Without a mask, or with skipna disabled, the element counter returns one scalar,
  the product of the sizes of the flagged axes, and leaves the memory as it was. With a mask
  and skipna enabled (for the element types and masks the counter supports: no fields, a
  boolean mask, whose bytes are 0 or 1), it returns a freshly allocated integer array of the
  reduction's shape; every cell of it holds the number of exposed operand elements that map
  to the cell, so each exposed element counts exactly once, in its own cell, and the cells
  sum to the number of exposed elements of the operand. Nothing else in memory changes.
\<close>

theorem count_reduce_items:
  assumes "length axis_flags = PyArray_NDIM operand"
  shows "(\<not> skipna \<or> \<not> PyArray_HASMASKNA operand \<longrightarrow>
            PyArray_CountReduceItems operand axis_flags skipna keepdims s
              = (Inr (CountScalar (prod_list
                    (map (\<lambda>idim. if axis_flags ! idim then dimensions operand ! idim else 1)
                       [0..<PyArray_NDIM operand]))), s)) \<and>
         (skipna \<and> maskna operand = Some m \<and> \<not> PyArray_HASFIELDS operand \<and>
          type_num (maskna_dtype m) = NPY_BOOL \<and>
          length (maskna_strides m) = PyArray_NDIM operand \<and>
          (\<forall>idx\<in>set (index_space (dimensions operand)).
              mmem s (mask_address m idx) = 0 \<or> mmem s (mask_address m idx) = 1) \<and>
          allocate_reduce_result operand axis_flags (Some intp_descr) False s = (result, s1) \<longrightarrow>
            (\<exists>s'. PyArray_CountReduceItems operand axis_flags skipna keepdims s
                     = (Inr (CountArray (if keepdims then result
                                         else PyArray_RemoveAxesInPlace result axis_flags)), s') \<and>
                  mmem s' = mmem s \<and>
                  (\<forall>a. dmem s' a
                     = (if a \<in> element_address result ` set (index_space (dimensions result))
                        then 0 else dmem s a)
                       + int (length (filter
                            (\<lambda>idx. NpyMaskValue_IsExposed (mmem s (mask_address m idx)) \<and>
                                   element_address result idx = a)
                            (index_space (dimensions operand))))) \<and>
                  (\<Sum>a\<in>element_address result ` set (index_space (dimensions result)). dmem s' a)
                    = int (length (filter
                            (\<lambda>idx. NpyMaskValue_IsExposed (mmem s (mask_address m idx)))
                            (index_space (dimensions operand))))))"
proof (intro conjI impI)
  assume "\<not> skipna \<or> \<not> PyArray_HASMASKNA operand"
  then show "PyArray_CountReduceItems operand axis_flags skipna keepdims s
      = (Inr (CountScalar (prod_list
            (map (\<lambda>idim. if axis_flags ! idim then dimensions operand ! idim else 1)
               [0..<PyArray_NDIM operand]))), s)"
    by (auto simp: PyArray_CountReduceItems_def Let_def fold_count_product)
next
  assume a: "skipna \<and> maskna operand = Some m \<and> \<not> PyArray_HASFIELDS operand \<and>
          type_num (maskna_dtype m) = NPY_BOOL \<and>
          length (maskna_strides m) = PyArray_NDIM operand \<and>
          (\<forall>idx\<in>set (index_space (dimensions operand)).
              mmem s (mask_address m idx) = 0 \<or> mmem s (mask_address m idx) = 1) \<and>
          allocate_reduce_result operand axis_flags (Some intp_descr) False s = (result, s1)"
  then have sk: "skipna = True" by simp
  show "\<exists>s'. PyArray_CountReduceItems operand axis_flags skipna keepdims s
                     = (Inr (CountArray (if keepdims then result
                                         else PyArray_RemoveAxesInPlace result axis_flags)), s') \<and>
                  mmem s' = mmem s \<and>
                  (\<forall>a. dmem s' a
                     = (if a \<in> element_address result ` set (index_space (dimensions result))
                        then 0 else dmem s a)
                       + int (length (filter
                            (\<lambda>idx. NpyMaskValue_IsExposed (mmem s (mask_address m idx)) \<and>
                                   element_address result idx = a)
                            (index_space (dimensions operand))))) \<and>
                  (\<Sum>a\<in>element_address result ` set (index_space (dimensions result)). dmem s' a)
                    = int (length (filter
                            (\<lambda>idx. NpyMaskValue_IsExposed (mmem s (mask_address m idx)))
                            (index_space (dimensions operand))))"
    unfolding sk
    by (rule PyArray_CountReduceItems_masked[OF assms]) (use a in simp_all)
qed

theorem count_reduce_items_witness:
  "length [False, True] = PyArray_NDIM arr_na \<and>
   PyArray_CountReduceItems arr_na [False, True] False False mem_na
     = (Inr (CountScalar 2), mem_na) \<and>
   fst (PyArray_CountReduceItems arr_na [False, True] True False mem_na)
     = Inr (CountArray \<lparr>data = 1000, dimensions = [2], strides = [8], descr = intp_descr,
                         maskna = None\<rparr>) \<and>
   map (dmem (snd (PyArray_CountReduceItems arr_na [False, True] True False mem_na)))
     [1000, 1008] = [1, 1] \<and>
   length (filter (\<lambda>idx. NpyMaskValue_IsExposed (mmem mem_na (mask_address
        \<lparr>maskna_dtype = bool_descr, maskna_data = 0, maskna_strides = [2, 1]\<rparr> idx)))
      (index_space (dimensions arr_na))) = 2 \<and>
   (\<Sum>a\<in>{1000, 1008}.
       dmem (snd (PyArray_CountReduceItems arr_na [False, True] True False mem_na)) a) = 2"
proof -
  define m where "m = \<lparr>maskna_dtype = bool_descr, maskna_data = 0, maskna_strides = [2, 1]\<rparr>"
  define R where "R = fst (allocate_reduce_result arr_na [False, True] (Some intp_descr) False mem_na)"
  define S where "S = snd (allocate_reduce_result arr_na [False, True] (Some intp_descr) False mem_na)"
  have h: "length [False, True] = PyArray_NDIM arr_na" by code_simp
  have sc: "prod_list (map (\<lambda>idim. if [False, True] ! idim then dimensions arr_na ! idim else 1)
      [0..<PyArray_NDIM arr_na]) = 2"
    by code_simp
  have p: "\<not> False \<or> \<not> PyArray_HASMASKNA arr_na" by simp
  have q: "True \<and> maskna arr_na = Some m \<and> \<not> PyArray_HASFIELDS arr_na \<and>
      type_num (maskna_dtype m) = NPY_BOOL \<and> length (maskna_strides m) = PyArray_NDIM arr_na \<and>
      (\<forall>idx\<in>set (index_space (dimensions arr_na)).
          mmem mem_na (mask_address m idx) = 0 \<or> mmem mem_na (mask_address m idx) = 1) \<and>
      allocate_reduce_result arr_na [False, True] (Some intp_descr) False mem_na = (R, S)"
  proof -
    have 1: "maskna arr_na = Some m" "\<not> PyArray_HASFIELDS arr_na"
      "type_num (maskna_dtype m) = NPY_BOOL" "length (maskna_strides m) = PyArray_NDIM arr_na"
      "\<forall>idx\<in>set (index_space (dimensions arr_na)).
          mmem mem_na (mask_address m idx) = 0 \<or> mmem mem_na (mask_address m idx) = 1"
      unfolding m_def by code_simp+
    have 2: "allocate_reduce_result arr_na [False, True] (Some intp_descr) False mem_na = (R, S)"
      unfolding R_def S_def by simp
    from 1 2 show ?thesis by simp
  qed
  have e: "fst (PyArray_CountReduceItems arr_na [False, True] True False mem_na)
     = Inr (CountArray \<lparr>data = 1000, dimensions = [2], strides = [8], descr = intp_descr,
                         maskna = None\<rparr>)"
    "map (dmem (snd (PyArray_CountReduceItems arr_na [False, True] True False mem_na)))
     [1000, 1008] = [1, 1]"
    "length (filter (\<lambda>idx. NpyMaskValue_IsExposed (mmem mem_na (mask_address m idx)))
      (index_space (dimensions arr_na))) = 2"
    "element_address R ` set (index_space (dimensions R)) = {1000, 1008}"
    unfolding m_def R_def by code_simp+
  note T = count_reduce_items[OF h, where s = mem_na and keepdims = False and m = m
      and result = R and ?s1.0 = S]
  from T[where skipna = False, THEN conjunct1] p sc
  have a: "PyArray_CountReduceItems arr_na [False, True] False False mem_na
     = (Inr (CountScalar 2), mem_na)"
    by simp
  from T[where skipna = True, THEN conjunct2] q obtain s' where
    s': "PyArray_CountReduceItems arr_na [False, True] True False mem_na
           = (Inr (CountArray (if False then R else PyArray_RemoveAxesInPlace R [False, True])), s')"
    "(\<Sum>a\<in>element_address R ` set (index_space (dimensions R)). dmem s' a)
       = int (length (filter (\<lambda>idx. NpyMaskValue_IsExposed (mmem mem_na (mask_address m idx)))
                (index_space (dimensions arr_na))))"
    by blast
  have b: "(\<Sum>a\<in>{1000, 1008}.
       dmem (snd (PyArray_CountReduceItems arr_na [False, True] True False mem_na)) a) = 2"
    using s' e(3,4) by simp
  show ?thesis
    using h a e(1,2,3) b unfolding m_def by simp
qed

end
